theory Spec2Isabelle
  imports Main "HOL-Library.Word" "HOL-Library.Multiset"
begin

unbundle bit_operations_syntax

section \<open>Data model of ShaderCompiler.cpp\<close>

text \<open>
  The contents of an \<open>ID3DBlob\<close> (\<open>GetBufferPointer\<close>, \<open>GetBufferSize\<close>) are a sequence
  of bytes; \<open>char\<close> is an 8-bit byte. A \<open>com_ptr<ID3DBlob>\<close> that may be null is a
  \<open>blob option\<close>, \<open>None\<close> being \<open>nullptr\<close>.
\<close>

type_synonym blob = string

record OptionPermutation =
  Key :: string
  Defines :: "(string \<times> string) list"

record ShaderInfo =
  Path :: string
  EntryPoint :: string
  Target :: string

record ShaderCompilationArguments =
  IsDebug :: bool
  UseExternalDebugSymbols :: bool
  OptimizationLevel :: int

text \<open>\<open>CompiledShader result{}\<close> value-initialises every member: an empty key, no bytes,
  an empty symbol file name and no symbol bytes.\<close>

record CompiledShader =
  Key :: string
  Data :: blob
  PdbName :: string
  PdbData :: blob

record D3D_SHADER_MACRO =
  Name :: "string option"
  Definition :: "string option"

datatype D3D_BLOB_PART = D3D_BLOB_PDB | D3D_BLOB_DEBUG_NAME

text \<open>What one call of \<open>D3DCompileFromFile\<close> hands back: the \<open>HRESULT\<close> and the two
  blob pointers written through \<open>binary.put()\<close> and \<open>errors.put()\<close>.\<close>

record D3DCompile_result =
  hr :: int
  binary :: "blob option"
  errors :: "blob option"

text \<open>
  The compiler library behind \<open>pch.h\<close> is not part of the repository: its flag constants
  and its three entry points are a parameter of the model. \<open>D3DCompileFromFile\<close> takes the
  path, the macro list, the entry point, the target and the two flag words (the include
  handler is the fixed \<open>D3D_COMPILE_STANDARD_FILE_INCLUDE\<close>); \<open>D3DGetBlobPart\<close> and
  \<open>D3DStripShader\<close> take the bytes of a blob and give the blob they store through their
  out-pointer (their \<open>HRESULT\<close> is not looked at by the source).
\<close>

record d3dcompiler =
  D3DCOMPILE_DEBUG :: "32 word"
  D3DCOMPILE_DEBUG_NAME_FOR_BINARY :: "32 word"
  D3DCOMPILE_SKIP_OPTIMIZATION :: "32 word"
  D3DCOMPILE_OPTIMIZATION_LEVEL0 :: "32 word"
  D3DCOMPILE_OPTIMIZATION_LEVEL1 :: "32 word"
  D3DCOMPILE_OPTIMIZATION_LEVEL2 :: "32 word"
  D3DCOMPILE_OPTIMIZATION_LEVEL3 :: "32 word"
  D3DCOMPILER_STRIP_DEBUG_INFO :: "32 word"
  D3DCompileFromFile ::
    "string \<Rightarrow> D3D_SHADER_MACRO list \<Rightarrow> string \<Rightarrow> string \<Rightarrow> 32 word \<Rightarrow> 32 word \<Rightarrow> D3DCompile_result"
  D3DGetBlobPart :: "blob \<Rightarrow> D3D_BLOB_PART \<Rightarrow> 32 word \<Rightarrow> blob option"
  D3DStripShader :: "blob \<Rightarrow> 32 word \<Rightarrow> blob option"

definition SUCCEEDED :: "int \<Rightarrow> bool" where
  "SUCCEEDED h = (0 \<le> h)"

text \<open>A dereference of a null blob pointer, and a read of a C string that finds no
  terminator inside the blob, have no defined result; the model makes them values.\<close>

datatype fault = NullPointerAccess | OutOfBoundsRead

section \<open>One permutation: lines 53 to 139 of CompileWorker\<close>

text \<open>What a reader of the C string \<open>s.c_str()\<close> sees of a \<open>std::string\<close>: the characters
  before its first NUL.\<close>

definition c_str :: "string \<Rightarrow> string" where
  "c_str s = takeWhile (\<lambda>c. c \<noteq> CHR 0x00) s"

text \<open>Lines 58 to 63: one macro per define, holding the two \<open>c_str()\<close> pointers, then the
  \<open>{nullptr, nullptr}\<close> terminator.\<close>

definition macros :: "OptionPermutation \<Rightarrow> D3D_SHADER_MACRO list" where
  "macros permutation =
     map (\<lambda>define. \<lparr>Name = Some (c_str (fst define)), Definition = Some (c_str (snd define))\<rparr>)
       (Defines permutation)
     @ [\<lparr>Name = None, Definition = None\<rparr>]"

text \<open>Lines 66 to 89: \<open>flags\<close> starts as \<open>0u\<close>; the debug bits and the \<open>switch\<close> on the
  optimization level OR into it. A level with no \<open>case\<close> leaves \<open>flags\<close> as it is.\<close>

definition debug_flags :: "d3dcompiler \<Rightarrow> ShaderCompilationArguments \<Rightarrow> 32 word" where
  "debug_flags K Options =
     (if IsDebug Options
      then 0 OR (D3DCOMPILE_DEBUG K OR D3DCOMPILE_DEBUG_NAME_FOR_BINARY K)
      else 0)"

definition optimization_switch :: "d3dcompiler \<Rightarrow> int \<Rightarrow> 32 word \<Rightarrow> 32 word" where
  "optimization_switch K level flags =
     (if level = - 1 then flags OR D3DCOMPILE_SKIP_OPTIMIZATION K
      else if level = 0 then flags OR D3DCOMPILE_OPTIMIZATION_LEVEL0 K
      else if level = 1 then flags OR D3DCOMPILE_OPTIMIZATION_LEVEL1 K
      else if level = 2 then flags OR D3DCOMPILE_OPTIMIZATION_LEVEL2 K
      else if level = 3 then flags OR D3DCOMPILE_OPTIMIZATION_LEVEL3 K
      else flags)"

definition compilation_flags :: "d3dcompiler \<Rightarrow> ShaderCompilationArguments \<Rightarrow> 32 word" where
  "compilation_flags K Options =
     optimization_switch K (OptimizationLevel Options) (debug_flags K Options)"

text \<open>Lines 92 to 102: the call of the backend for one permutation.\<close>

definition run_compilation ::
  "d3dcompiler \<Rightarrow> ShaderInfo \<Rightarrow> ShaderCompilationArguments \<Rightarrow> OptionPermutation \<Rightarrow> D3DCompile_result"
where
  "run_compilation K Shader Options permutation =
     D3DCompileFromFile K (Path Shader) (macros permutation) (EntryPoint Shader)
       (Target Shader) (compilation_flags K Options) 0"

text \<open>
  Lines 31 to 35 and 118 to 121: \<open>ShaderDebugName\<close> is two \<open>uint16_t\<close>, so
  \<open>pDebugNameData + 1\<close> points 4 bytes into the name blob, and assigning that
  \<open>const char*\<close> to \<open>PdbName\<close> copies the bytes up to the first NUL. Neither field of the
  header is read. With no NUL left in the blob the read runs past its end.
\<close>

definition sizeof_ShaderDebugName :: nat where
  "sizeof_ShaderDebugName = 2 + 2"

definition c_string_at :: "blob \<Rightarrow> nat \<Rightarrow> fault + string" where
  "c_string_at bytes offset =
     (let rest = drop offset bytes
      in if CHR 0x00 \<in> set rest
         then Inr (takeWhile (\<lambda>c. c \<noteq> CHR 0x00) rest)
         else Inl OutOfBoundsRead)"

text \<open>Lines 110 to 128: both blob parts are asked for; only when both came back is the
  result given a name and symbol bytes; the binary is stripped and swapped in either way.
  The value is the result and the blob \<open>binary\<close> points to afterwards.\<close>

definition debug_information ::
  "d3dcompiler \<Rightarrow> blob \<Rightarrow> CompiledShader \<Rightarrow> fault + (CompiledShader \<times> blob option)"
where
  "debug_information K bytes result =
     (let pdb = D3DGetBlobPart K bytes D3D_BLOB_PDB 0;
          pdbName = D3DGetBlobPart K bytes D3D_BLOB_DEBUG_NAME 0;
          stripped = D3DStripShader K bytes (D3DCOMPILER_STRIP_DEBUG_INFO K)
      in case pdb of
           None \<Rightarrow> Inr (result, stripped)
         | Some pdbBytes \<Rightarrow>
             (case pdbName of
                None \<Rightarrow> Inr (result, stripped)
              | Some nameBytes \<Rightarrow>
                  (case c_string_at nameBytes sizeof_ShaderDebugName of
                     Inl f \<Rightarrow> Inl f
                   | Inr fileName \<Rightarrow>
                       Inr (result\<lparr>PdbName := fileName, PdbData := pdbBytes\<rparr>, stripped))))"

text \<open>Lines 132 to 135: the bytes of whatever \<open>binary\<close> points to become \<open>Data\<close>.\<close>

definition save_binary :: "blob option \<Rightarrow> CompiledShader \<Rightarrow> fault + CompiledShader" where
  "save_binary bin result =
     (case bin of
        None \<Rightarrow> Inl NullPointerAccess
      | Some bytes \<Rightarrow> Inr (result\<lparr>Data := bytes\<rparr>))"

text \<open>Lines 105 to 136, entered when the compilation succeeded.\<close>

definition post_process ::
  "d3dcompiler \<Rightarrow> ShaderCompilationArguments \<Rightarrow> blob option \<Rightarrow> CompiledShader
     \<Rightarrow> fault + CompiledShader"
where
  "post_process K Options bin result =
     (if IsDebug Options \<and> UseExternalDebugSymbols Options
      then (case bin of
              None \<Rightarrow> Inl NullPointerAccess
            | Some bytes \<Rightarrow>
                (case debug_information K bytes result of
                   Inl f \<Rightarrow> Inl f
                 | Inr (result', bin') \<Rightarrow> save_binary bin' result'))
      else save_binary bin result)"

text \<open>Lines 139 to 143: \<open>getline\<close> with the delimiter \<open>'\n'\<close> over the whole text of the
  errors blob. A line ends at a newline, which is dropped, or at the end of the text; a
  read that extracts nothing at the end of the text fails and ends the loop.\<close>

fun getline_all :: "string \<Rightarrow> string \<Rightarrow> string list" where
  "getline_all message [] = (if message = [] then [] else [message])"
| "getline_all message (c # cs) =
     (if c = CHR 0x0A then message # getline_all [] cs
      else getline_all (message @ [c]) cs)"

definition message_lines :: "blob \<Rightarrow> string list" where
  "message_lines text = getline_all [] text"

text \<open>Line 139: \<open>errors->GetBufferPointer()\<close> and \<open>errors->GetBufferSize()\<close> are called
  with no test of \<open>errors\<close>, whether the compilation succeeded or not.\<close>

definition read_messages :: "blob option \<Rightarrow> fault + string list" where
  "read_messages errs =
     (case errs of
        None \<Rightarrow> Inl NullPointerAccess
      | Some text \<Rightarrow> Inr (message_lines text))"

text \<open>Lines 53 to 139 for one permutation: the result record, the backend call, the
  post-processing on success and the lines of the errors blob.\<close>

definition compile_permutation ::
  "d3dcompiler \<Rightarrow> ShaderInfo \<Rightarrow> ShaderCompilationArguments \<Rightarrow> OptionPermutation
     \<Rightarrow> fault + (bool \<times> CompiledShader \<times> string list)"
where
  "compile_permutation K Shader Options permutation =
     (let result = \<lparr>CompiledShader.Key = OptionPermutation.Key permutation,
                     Data = [], PdbName = [], PdbData = []\<rparr>;
          r = run_compilation K Shader Options permutation;
          success = SUCCEEDED (hr r)
      in case (if success then post_process K Options (binary r) result else Inr result) of
           Inl f \<Rightarrow> Inl f
         | Inr result' \<Rightarrow>
             (case read_messages (errors r) of
                Inl f \<Rightarrow> Inl f
              | Inr lines \<Rightarrow> Inr (success, result', lines)))"

text \<open>
  Line 141: \<open>regex_match\<close> against
  \<^verbatim>\<open>.*: warning X3568: '(target|namespace|entry|option)' : unknown pragma ignored\<close>.
  The whole message has to match: it ends in the fixed text for one of the four pragma
  names, and what stands before is matched by \<open>.*\<close>, where \<open>.\<close> is any character but a
  line feed or a carriage return.
\<close>

definition ignored_pragmas :: "string list" where
  "ignored_pragmas = [''target'', ''namespace'', ''entry'', ''option'']"

definition ignored_warning :: "string \<Rightarrow> string" where
  "ignored_warning pragma =
     '': warning X3568: '' @ [CHR 0x27] @ pragma @ [CHR 0x27] @ '' : unknown pragma ignored''"

definition dot :: "char \<Rightarrow> bool" where
  "dot c = (c \<noteq> CHR 0x0A \<and> c \<noteq> CHR 0x0D)"

definition warningIgnoreRegex :: "string \<Rightarrow> bool" where
  "warningIgnoreRegex message =
     list_ex (\<lambda>pragma.
        length (ignored_warning pragma) \<le> length message \<and>
        drop (length message - length (ignored_warning pragma)) message = ignored_warning pragma \<and>
        list_all dot (take (length message - length (ignored_warning pragma)) message))
       ignored_pragmas"

section \<open>The shared context and the worker threads\<close>

text \<open>
  \<open>ShaderCompilationContext\<close>, lines 9 to 29. \<open>Shader\<close> and \<open>Options\<close> are never written
  and are parameters of the model; the three mutexes hold no data. \<open>Input\<close> is the queue,
  its front the head of the list: the constructor pushes the permutations in order.
\<close>

record ShaderCompilationContext =
  Input :: "OptionPermutation list"
  IsFailed :: bool
  Output :: "CompiledShader list"
  Messages :: "string set"

text \<open>
  What a run leaves outside the context: the permutations handed to the backend so
  far, in the order of the calls, and the lines the workers' \<open>printf\<close> calls of line 148
  wrote: \<open>printf("%s\n", message.c_str())\<close> writes the message up to its first NUL.
\<close>

record process = ShaderCompilationContext +
  Compiled :: "OptionPermutation list"
  Printed :: "string list"

text \<open>
  Where one thread stands in \<open>CompileWorker\<close>. Every step of a thread is one access to
  the shared context, with the thread-local work before it:
  \<^item> \<open>GetWorkItem\<close>: at line 46, about to lock \<open>InputMutex\<close>;
  \<^item> \<open>RunCompilation p\<close>: line 53, holding the permutation it popped;
  \<^item> \<open>GetLine success result lines\<close>: at \<open>getline\<close> of line 143 with \<open>lines\<close> still unread;
  \<^item> \<open>Emplace success result lines message found\<close>: inside \<open>Messages.emplace\<close> of line
    145, after the lookup of \<open>message\<close> and before the insertion;
  \<^item> \<open>Printf success result lines message\<close>: at line 147, \<open>emplace\<close> has reported an
    insertion;
  \<^item> \<open>Return\<close>: the thread has returned at line 47;
  \<^item> \<open>Fault f\<close>: the thread has made an access with no defined result.

  Line 145 calls \<open>emplace\<close> before line 147 locks \<open>MessagesMutex\<close>: the lock_guard is
  declared in the body of the \<open>if\<close> whose condition makes the call. The lookup and the
  insertion of one \<open>emplace\<close> are therefore two steps, and another thread can run between
  them. \<open>Input\<close> and \<open>Output\<close> are accessed under their mutexes (lines 46 and 156), each in
  one step; the store of line 161 is one step.

  Nothing orders the \<open>emplace\<close> calls of two threads. Two of them that overlap are a data
  race on the \<open>unordered_set\<close>, and the language gives a run with a data race no
  behaviour at all: it may go on, it may stop with an access violation. The steps below
  take the accesses of the threads one after the other and follow such a run through the
  outcome in which both calls complete, each on what its own lookup saw; \<open>race_free\<close>
  further down tells the schedules without such an overlap apart, and what is stated
  about every run is stated about those.
\<close>

datatype CompileWorker =
    GetWorkItem
  | RunCompilation OptionPermutation
  | GetLine bool CompiledShader "string list"
  | Emplace bool CompiledShader "string list" string bool
  | Printf bool CompiledShader "string list" string
  | Return
  | Fault fault

fun worker_step ::
  "d3dcompiler \<Rightarrow> ShaderInfo \<Rightarrow> ShaderCompilationArguments \<Rightarrow> CompileWorker \<Rightarrow> process
     \<Rightarrow> (CompileWorker \<times> process) option"
where
  "worker_step K Shader Options GetWorkItem context =
     (case Input context of
        [] \<Rightarrow> Some (Return, context)
      | permutation # rest \<Rightarrow> Some (RunCompilation permutation, context\<lparr>Input := rest\<rparr>))"
| "worker_step K Shader Options (RunCompilation permutation) context =
     (case compile_permutation K Shader Options permutation of
        Inl f \<Rightarrow> Some (Fault f, context\<lparr>Compiled := Compiled context @ [permutation]\<rparr>)
      | Inr (success, result, lines) \<Rightarrow>
          Some (GetLine success result lines,
                context\<lparr>Compiled := Compiled context @ [permutation]\<rparr>))"
| "worker_step K Shader Options (GetLine success result (message # lines)) context =
     (if \<not> warningIgnoreRegex message
      then Some (Emplace success result lines message (message \<in> Messages context), context)
      else Some (GetLine success result lines, context))"
| "worker_step K Shader Options (Emplace success result lines message found) context =
     (if found then Some (GetLine success result lines, context)
      else Some (Printf success result lines message,
                 context\<lparr>Messages := insert message (Messages context)\<rparr>))"
| "worker_step K Shader Options (Printf success result lines message) context =
     Some (GetLine success result lines,
           context\<lparr>Printed := Printed context @ [c_str message]\<rparr>)"
| "worker_step K Shader Options (GetLine success result []) context =
     (if success
      then Some (GetWorkItem, context\<lparr>Output := Output context @ [result]\<rparr>)
      else Some (GetWorkItem, context\<lparr>IsFailed := True\<rparr>))"
| "worker_step K Shader Options Return context = None"
| "worker_step K Shader Options (Fault f) context = None"

text \<open>
  One step of the process: thread \<open>t\<close> moves. A thread that does not exist or has
  returned cannot move, and nothing moves once a thread has faulted.
\<close>

definition is_Fault :: "CompileWorker \<Rightarrow> bool" where
  "is_Fault w = (case w of Fault f \<Rightarrow> True | _ \<Rightarrow> False)"

definition step ::
  "d3dcompiler \<Rightarrow> ShaderInfo \<Rightarrow> ShaderCompilationArguments \<Rightarrow> nat
     \<Rightarrow> CompileWorker list \<times> process \<Rightarrow> (CompileWorker list \<times> process) option"
where
  "step K Shader Options t c =
     (if length (fst c) \<le> t \<or> list_ex is_Fault (fst c) then None
      else case worker_step K Shader Options (fst c ! t) (snd c) of
             None \<Rightarrow> None
           | Some (w, context) \<Rightarrow> Some ((fst c)[t := w], context))"

text \<open>A schedule names the thread that moves next, step after step.\<close>

fun exec ::
  "d3dcompiler \<Rightarrow> ShaderInfo \<Rightarrow> ShaderCompilationArguments \<Rightarrow> nat list
     \<Rightarrow> CompileWorker list \<times> process \<Rightarrow> (CompileWorker list \<times> process) option"
where
  "exec K Shader Options [] c = Some c"
| "exec K Shader Options (t # schedule) c =
     (case step K Shader Options t c of
        None \<Rightarrow> None
      | Some c' \<Rightarrow> exec K Shader Options schedule c')"

text \<open>
  A thread is inside \<open>emplace\<close> between its lookup and its insertion, and its next step
  calls or completes \<open>emplace\<close> when it is there or is about to look a line up that the
  regex does not match. The step of thread \<open>t\<close> races when it does so while another thread
  is inside \<open>emplace\<close>. A schedule is free of races when none of its steps does.
\<close>

definition in_emplace :: "CompileWorker \<Rightarrow> bool" where
  "in_emplace w =
     (case w of Emplace success result lines message found \<Rightarrow> True | _ \<Rightarrow> False)"

definition calls_emplace :: "CompileWorker \<Rightarrow> bool" where
  "calls_emplace w =
     (case w of
        GetLine success result lines \<Rightarrow>
          (case lines of [] \<Rightarrow> False | message # rest \<Rightarrow> \<not> warningIgnoreRegex message)
      | Emplace success result lines message found \<Rightarrow> True
      | _ \<Rightarrow> False)"

definition racing :: "CompileWorker list \<Rightarrow> nat \<Rightarrow> bool" where
  "racing threads t =
     (t < length threads \<and> calls_emplace (threads ! t) \<and>
      list_ex in_emplace (take t threads @ drop (Suc t) threads))"

fun race_free ::
  "d3dcompiler \<Rightarrow> ShaderInfo \<Rightarrow> ShaderCompilationArguments \<Rightarrow> nat list
     \<Rightarrow> CompileWorker list \<times> process \<Rightarrow> bool"
where
  "race_free K Shader Options [] c = True"
| "race_free K Shader Options (t # schedule) c =
     (\<not> racing (fst c) t \<and>
      (case step K Shader Options t c of
         None \<Rightarrow> True
       | Some c' \<Rightarrow> race_free K Shader Options schedule c'))"

section \<open>CompileShader, lines 168 to 195\<close>

text \<open>
  \<open>ShaderOption::Permutate\<close> and \<open>thread::hardware_concurrency\<close> are outside the
  repository's sources: the permutation list and the reported concurrency are inputs.
  The reported concurrency is an \<open>unsigned int\<close> and may be 0, which the standard
  library returns when the number is not computable; line 177 takes the smaller of it
  and the number of permutations as it comes.

  \<open>CreateThread\<close> is taken to start every thread. \<open>WaitForMultipleObjects(..., true,
  INFINITE)\<close> of line 184 comes back once all threads have returned when it is given
  1 to \<open>MAXIMUM_WAIT_OBJECTS\<close> (64) handles; given more it fails at once, and line 184
  drops its result, so that \<open>CompileShader\<close> goes on to line 185 while the workers run
  (given none it fails at once too, with no thread to wait for). \<open>CompileShader\<close>
  therefore reads the context in a state where every thread is at \<open>Return\<close>, or, when
  more than 64 threads were started, in any state where no thread has faulted; the reads
  of lines 185 and 193 are taken in one state. A schedule that does not end in such a state, or asks a thread for a
  step it cannot make, is no run of \<open>CompileShader\<close>. The lines the workers print are kept
  apart from the three lines \<open>CompileShader\<close> prints itself.
\<close>

definition threadCount :: "nat \<Rightarrow> nat \<Rightarrow> nat" where
  "threadCount hardware_concurrency permutation_count =
     min hardware_concurrency permutation_count"

definition start :: "nat \<Rightarrow> OptionPermutation list \<Rightarrow> CompileWorker list \<times> process" where
  "start hardware_concurrency permutations =
     (replicate (threadCount hardware_concurrency (length permutations)) GetWorkItem,
      \<lparr>Input = permutations, IsFailed = False, Output = [], Messages = {},
       Compiled = [], Printed = []\<rparr>)"

definition joined :: "CompileWorker list \<Rightarrow> bool" where
  "joined threads = list_all (\<lambda>w. w = Return) threads"

definition MAXIMUM_WAIT_OBJECTS :: nat where
  "MAXIMUM_WAIT_OBJECTS = 64"

definition wait_over :: "CompileWorker list \<Rightarrow> bool" where
  "wait_over threads =
     (joined threads \<or> (MAXIMUM_WAIT_OBJECTS < length threads \<and> \<not> list_ex is_Fault threads))"

definition CompileShader_run ::
  "d3dcompiler \<Rightarrow> nat \<Rightarrow> ShaderInfo \<Rightarrow> ShaderCompilationArguments \<Rightarrow> OptionPermutation list
     \<Rightarrow> nat list \<Rightarrow> process option"
where
  "CompileShader_run K hardware_concurrency Shader Options permutations schedule =
     (case exec K Shader Options schedule (start hardware_concurrency permutations) of
        None \<Rightarrow> None
      | Some c \<Rightarrow> if wait_over (fst c) then Some (snd c) else None)"

text \<open>Lines 185 to 194: what is returned from the context the threads left.\<close>

definition returned :: "process \<Rightarrow> CompiledShader list" where
  "returned context = (if IsFailed context then [] else Output context)"

definition CompileShader ::
  "d3dcompiler \<Rightarrow> nat \<Rightarrow> ShaderInfo \<Rightarrow> ShaderCompilationArguments \<Rightarrow> OptionPermutation list
     \<Rightarrow> nat list \<Rightarrow> CompiledShader list option"
where
  "CompileShader K hardware_concurrency Shader Options permutations schedule =
     map_option returned
       (CompileShader_run K hardware_concurrency Shader Options permutations schedule)"

section \<open>Bookkeeping for runs\<close>

text \<open>What a thread holds that the shared context does not show yet: the permutation it
  popped and has not compiled, the result of a successful compilation it has not
  appended to \<open>Output\<close>, a failure it has not stored in \<open>IsFailed\<close>.\<close>

fun taken :: "CompileWorker \<Rightarrow> OptionPermutation multiset" where
  "taken (RunCompilation permutation) = {#permutation#}"
| "taken _ = {#}"

fun unpublished :: "CompileWorker \<Rightarrow> CompiledShader multiset" where
  "unpublished (GetLine success result lines) = (if success then {#result#} else {#})"
| "unpublished (Emplace success result lines message found) = (if success then {#result#} else {#})"
| "unpublished (Printf success result lines message) = (if success then {#result#} else {#})"
| "unpublished _ = {#}"

fun unreported :: "CompileWorker \<Rightarrow> bool" where
  "unreported (GetLine success result lines) = (\<not> success)"
| "unreported (Emplace success result lines message found) = (\<not> success)"
| "unreported (Printf success result lines message) = (\<not> success)"
| "unreported _ = False"

text \<open>What the compilation of one permutation contributes: its result when it succeeded,
  a failure when it failed, neither when it faulted.\<close>

definition artifact ::
  "d3dcompiler \<Rightarrow> ShaderInfo \<Rightarrow> ShaderCompilationArguments \<Rightarrow> OptionPermutation
     \<Rightarrow> CompiledShader multiset"
where
  "artifact K Shader Options permutation =
     (case compile_permutation K Shader Options permutation of
        Inl f \<Rightarrow> {#}
      | Inr (success, result, lines) \<Rightarrow> if success then {#result#} else {#})"

definition failure ::
  "d3dcompiler \<Rightarrow> ShaderInfo \<Rightarrow> ShaderCompilationArguments \<Rightarrow> OptionPermutation \<Rightarrow> bool"
where
  "failure K Shader Options permutation =
     (case compile_permutation K Shader Options permutation of
        Inl f \<Rightarrow> False
      | Inr (success, result, lines) \<Rightarrow> \<not> success)"

text \<open>Four relations between the threads and the context, kept by every step: every
  permutation is in the queue, in a thread's hands or compiled, and a thread has returned
  only if the queue is empty; the results appended and held are those of the successful
  compilations made; a failure is stored or held exactly when a compilation made has
  failed; a compilation made has faulted only if a thread is at \<open>Fault\<close>.\<close>

definition queue_accounted ::
  "OptionPermutation list \<Rightarrow> CompileWorker multiset \<Rightarrow> process \<Rightarrow> bool"
where
  "queue_accounted permutations threads context =
     (mset (Input context) + (\<Sum>w\<in>#threads. taken w) + mset (Compiled context)
        = mset permutations \<and>
      (Return \<in># threads \<longrightarrow> Input context = []))"

definition output_accounted ::
  "d3dcompiler \<Rightarrow> ShaderInfo \<Rightarrow> ShaderCompilationArguments
     \<Rightarrow> CompileWorker multiset \<Rightarrow> process \<Rightarrow> bool"
where
  "output_accounted K Shader Options threads context =
     (mset (Output context) + (\<Sum>w\<in>#threads. unpublished w)
        = (\<Sum>p\<in>#mset (Compiled context). artifact K Shader Options p))"

definition failure_accounted ::
  "d3dcompiler \<Rightarrow> ShaderInfo \<Rightarrow> ShaderCompilationArguments
     \<Rightarrow> CompileWorker multiset \<Rightarrow> process \<Rightarrow> bool"
where
  "failure_accounted K Shader Options threads context =
     ((IsFailed context \<or> (\<exists>w\<in>#threads. unreported w))
        = list_ex (failure K Shader Options) (Compiled context))"

definition fault_accounted ::
  "d3dcompiler \<Rightarrow> ShaderInfo \<Rightarrow> ShaderCompilationArguments
     \<Rightarrow> CompileWorker multiset \<Rightarrow> process \<Rightarrow> bool"
where
  "fault_accounted K Shader Options threads context =
     (list_ex (\<lambda>p. isl (compile_permutation K Shader Options p)) (Compiled context)
        \<longrightarrow> (\<exists>w\<in>#threads. is_Fault w))"

text \<open>A bound on the steps still to come: every position of a thread has a cost that each
  step lowers, and a queued permutation costs what its compilation and its lines will.\<close>

fun cost ::
  "d3dcompiler \<Rightarrow> ShaderInfo \<Rightarrow> ShaderCompilationArguments \<Rightarrow> CompileWorker \<Rightarrow> nat"
where
  "cost K Shader Options GetWorkItem = 1"
| "cost K Shader Options (RunCompilation permutation) =
     (case compile_permutation K Shader Options permutation of
        Inl f \<Rightarrow> 1
      | Inr (success, result, lines) \<Rightarrow> 3 * length lines + 3)"
| "cost K Shader Options (GetLine success result lines) = 3 * length lines + 2"
| "cost K Shader Options (Emplace success result lines message found) = 3 * length lines + 4"
| "cost K Shader Options (Printf success result lines message) = 3 * length lines + 3"
| "cost K Shader Options Return = 0"
| "cost K Shader Options (Fault f) = 0"

definition steps_left ::
  "d3dcompiler \<Rightarrow> ShaderInfo \<Rightarrow> ShaderCompilationArguments \<Rightarrow> CompileWorker multiset \<Rightarrow> process
     \<Rightarrow> nat"
where
  "steps_left K Shader Options threads context =
     (\<Sum>w\<in>#threads. cost K Shader Options w)
     + (\<Sum>p\<leftarrow>Input context. cost K Shader Options (RunCompilation p) + 1)"

text \<open>No thread has faulted and no permutation still to be compiled will.\<close>

definition fault_free ::
  "d3dcompiler \<Rightarrow> ShaderInfo \<Rightarrow> ShaderCompilationArguments \<Rightarrow> CompileWorker multiset \<Rightarrow> process
     \<Rightarrow> bool"
where
  "fault_free K Shader Options threads context =
     (list_all (\<lambda>p. \<not> isl (compile_permutation K Shader Options p)) (Input context) \<and>
      (\<forall>w\<in>#threads. \<not> is_Fault w \<and>
         (\<forall>p\<in>#taken w. \<not> isl (compile_permutation K Shader Options p))))"

text \<open>The lines of a permutation's errors blob, and the lines a run over a list of
  permutations has to report: those that \<open>warningIgnoreRegex\<close> does not match.\<close>

definition lines_of ::
  "d3dcompiler \<Rightarrow> ShaderInfo \<Rightarrow> ShaderCompilationArguments \<Rightarrow> OptionPermutation \<Rightarrow> string list"
where
  "lines_of K Shader Options permutation =
     (case compile_permutation K Shader Options permutation of
        Inl f \<Rightarrow> []
      | Inr (success, result, lines) \<Rightarrow> lines)"

definition reported ::
  "d3dcompiler \<Rightarrow> ShaderInfo \<Rightarrow> ShaderCompilationArguments \<Rightarrow> OptionPermutation list
     \<Rightarrow> string set"
where
  "reported K Shader Options permutations =
     set (filter (\<lambda>m. \<not> warningIgnoreRegex m)
            (concat (map (lines_of K Shader Options) permutations)))"

text \<open>The lines a thread has not read yet, the line it is inside \<open>emplace\<close> with, that
  line when the lookup found it, and the line it is about to print.\<close>

fun unread :: "CompileWorker \<Rightarrow> string set" where
  "unread (GetLine success result lines) = set lines"
| "unread (Emplace success result lines message found) = set lines"
| "unread (Printf success result lines message) = set lines"
| "unread _ = {}"

fun emplacing :: "CompileWorker \<Rightarrow> string set" where
  "emplacing (Emplace success result lines message found) = {message}"
| "emplacing _ = {}"

fun found_before :: "CompileWorker \<Rightarrow> string set" where
  "found_before (Emplace success result lines message found) = (if found then {message} else {})"
| "found_before _ = {}"

fun printing :: "CompileWorker \<Rightarrow> string multiset" where
  "printing (Printf success result lines message) = {#message#}"
| "printing _ = {#}"

text \<open>Relations between \<open>Messages\<close>, the printed lines and the threads: every line to report
  is in \<open>Messages\<close> or still ahead of a thread, and a line a lookup found is in the set;
  whatever is in the set or in hand is a line to report; and, as long as no \<open>emplace\<close>
  overlaps another, every message of the set is printed or about to be printed once,
  and the lookup of a thread inside \<open>emplace\<close> still holds.\<close>

definition messages_complete ::
  "d3dcompiler \<Rightarrow> ShaderInfo \<Rightarrow> ShaderCompilationArguments
     \<Rightarrow> CompileWorker multiset \<Rightarrow> process \<Rightarrow> bool"
where
  "messages_complete K Shader Options threads ctx =
     (reported K Shader Options (Compiled ctx)
        \<subseteq> Messages ctx \<union> (\<Union>w\<in>set_mset threads. unread w \<union> emplacing w) \<and>
      (\<Union>w\<in>set_mset threads. found_before w) \<subseteq> Messages ctx)"

definition messages_sound ::
  "d3dcompiler \<Rightarrow> ShaderInfo \<Rightarrow> ShaderCompilationArguments
     \<Rightarrow> CompileWorker multiset \<Rightarrow> process \<Rightarrow> bool"
where
  "messages_sound K Shader Options threads ctx =
     (Messages ctx
        \<union> (\<Union>w\<in>set_mset threads. emplacing w \<union> {m \<in> unread w. \<not> warningIgnoreRegex m})
        \<subseteq> reported K Shader Options (Compiled ctx))"

definition emitted_once :: "CompileWorker multiset \<Rightarrow> process \<Rightarrow> bool" where
  "emitted_once threads ctx =
     (finite (Messages ctx) \<and>
      mset (Printed ctx) + image_mset c_str (\<Sum>w\<in>#threads. printing w)
        = image_mset c_str (mset_set (Messages ctx)) \<and>
      (\<forall>w\<in>#threads. found_before w = emplacing w \<inter> Messages ctx))"

section \<open>A concrete backend for runs on concrete inputs\<close>

text \<open>
  The flag values are those of the Windows SDK header \<open>d3dcompiler.h\<close>
  (\<open>D3DCOMPILE_DEBUG\<close> is \<open>1 << 0\<close>, \<open>D3DCOMPILE_SKIP_OPTIMIZATION\<close> is \<open>1 << 2\<close>, the four
  levels are \<open>1 << 14\<close>, \<open>0\<close>, \<open>(1 << 14) | (1 << 15)\<close> and \<open>1 << 15\<close>,
  \<open>D3DCOMPILE_DEBUG_NAME_FOR_BINARY\<close> is \<open>1 << 23\<close>, \<open>D3DCOMPILER_STRIP_DEBUG_INFO\<close> is 2).
  The three entry points are small stand-ins: a permutation that defines \<open>BROKEN\<close> fails to
  compile with an error text; one that defines \<open>SILENT\<close> fails and leaves the errors
  pointer null; one that defines \<open>QUIET\<close> compiles and leaves the errors pointer null;
  any other compiles to a binary that names its first macro and draws one
  ignored and one reported warning. Only the binary of the permutation without defines
  holds debug parts, and the length field of its name part (2) is not the length of the
  name. Stripping replaces the first four bytes.
\<close>

definition sample_ignored :: string where
  "sample_ignored =
     ''a.hlsl(1,9): warning X3568: '' @ [CHR 0x27] @ ''target'' @ [CHR 0x27]
       @ '' : unknown pragma ignored''"

definition sample_warnings :: blob where
  "sample_warnings = sample_ignored @ [CHR 0x0A] @ ''warning X3206'' @ [CHR 0x0A]"

definition sample_compile ::
  "string \<Rightarrow> D3D_SHADER_MACRO list \<Rightarrow> string \<Rightarrow> string \<Rightarrow> 32 word \<Rightarrow> 32 word \<Rightarrow> D3DCompile_result"
where
  "sample_compile path ms entry target flags1 flags2 =
     (if list_ex (\<lambda>m. Name m = Some ''BROKEN'') ms
      then \<lparr>hr = - 2147467259, binary = None, errors = Some (''error X3000'' @ [CHR 0x0A])\<rparr>
      else if list_ex (\<lambda>m. Name m = Some ''SILENT'') ms
      then \<lparr>hr = - 2147467259, binary = None, errors = None\<rparr>
      else if list_ex (\<lambda>m. Name m = Some ''QUIET'') ms
      then \<lparr>hr = 0, binary = Some ''DXBC'', errors = None\<rparr>
      else \<lparr>hr = 0,
            binary = Some (''DXBC'' @ (case Name (hd ms) of None \<Rightarrow> [] | Some n \<Rightarrow> n)),
            errors = Some sample_warnings\<rparr>)"

definition sample_part :: "blob \<Rightarrow> D3D_BLOB_PART \<Rightarrow> 32 word \<Rightarrow> blob option" where
  "sample_part bytes part flags =
     (if bytes = ''DXBC''
      then (case part of
              D3D_BLOB_PDB \<Rightarrow> Some ''PDB''
            | D3D_BLOB_DEBUG_NAME \<Rightarrow>
                Some ([CHR 0x00, CHR 0x00, CHR 0x02, CHR 0x00] @ ''a.pdb'' @ [CHR 0x00]))
      else None)"

definition sample_strip :: "blob \<Rightarrow> 32 word \<Rightarrow> blob option" where
  "sample_strip bytes flags = Some (''strp'' @ drop 4 bytes)"

definition sample_backend :: d3dcompiler where
  "sample_backend =
     \<lparr>D3DCOMPILE_DEBUG = 1,
      D3DCOMPILE_DEBUG_NAME_FOR_BINARY = 8388608,
      D3DCOMPILE_SKIP_OPTIMIZATION = 4,
      D3DCOMPILE_OPTIMIZATION_LEVEL0 = 16384,
      D3DCOMPILE_OPTIMIZATION_LEVEL1 = 0,
      D3DCOMPILE_OPTIMIZATION_LEVEL2 = 49152,
      D3DCOMPILE_OPTIMIZATION_LEVEL3 = 32768,
      D3DCOMPILER_STRIP_DEBUG_INFO = 2,
      D3DCompileFromFile = sample_compile,
      D3DGetBlobPart = sample_part,
      D3DStripShader = sample_strip\<rparr>"

definition sample_shader :: ShaderInfo where
  "sample_shader = \<lparr>Path = ''a.hlsl'', EntryPoint = ''main'', Target = ''cs_5_0''\<rparr>"

definition release_options :: ShaderCompilationArguments where
  "release_options = \<lparr>IsDebug = False, UseExternalDebugSymbols = False, OptimizationLevel = 3\<rparr>"

definition debug_options :: ShaderCompilationArguments where
  "debug_options = \<lparr>IsDebug = True, UseExternalDebugSymbols = True, OptimizationLevel = - 1\<rparr>"

definition plain :: OptionPermutation where
  "plain = \<lparr>OptionPermutation.Key = ''0'', Defines = []\<rparr>"

definition fancy :: OptionPermutation where
  "fancy = \<lparr>OptionPermutation.Key = ''1'', Defines = [(''FANCY'', ''1'')]\<rparr>"

definition quiet :: OptionPermutation where
  "quiet = \<lparr>OptionPermutation.Key = ''3'', Defines = [(''QUIET'', ''1'')]\<rparr>"

definition silent :: OptionPermutation where
  "silent = \<lparr>OptionPermutation.Key = ''4'', Defines = [(''SILENT'', ''1'')]\<rparr>"

definition broken :: OptionPermutation where
  "broken = \<lparr>OptionPermutation.Key = ''2'', Defines = [(''BROKEN'', ''1'')]\<rparr>"

section \<open>Properties of one permutation's compilation\<close>

text \<open>
  Claim C6. The flags handed to the backend are the debug bits ORed with the flag of the
  optimization level: \<open>-1\<close> gives \<open>D3DCOMPILE_SKIP_OPTIMIZATION\<close>, \<open>0\<close> to \<open>3\<close> give
  \<open>D3DCOMPILE_OPTIMIZATION_LEVEL0\<close> to \<open>D3DCOMPILE_OPTIMIZATION_LEVEL3\<close>, and any other
  level leaves the debug bits alone. This holds for every value of the constants.
\<close>

theorem optimization_flag_mapping:
  "(OptimizationLevel Options = - 1 \<longrightarrow>
      compilation_flags K Options = debug_flags K Options OR D3DCOMPILE_SKIP_OPTIMIZATION K) \<and>
   (OptimizationLevel Options = 0 \<longrightarrow>
      compilation_flags K Options = debug_flags K Options OR D3DCOMPILE_OPTIMIZATION_LEVEL0 K) \<and>
   (OptimizationLevel Options = 1 \<longrightarrow>
      compilation_flags K Options = debug_flags K Options OR D3DCOMPILE_OPTIMIZATION_LEVEL1 K) \<and>
   (OptimizationLevel Options = 2 \<longrightarrow>
      compilation_flags K Options = debug_flags K Options OR D3DCOMPILE_OPTIMIZATION_LEVEL2 K) \<and>
   (OptimizationLevel Options = 3 \<longrightarrow>
      compilation_flags K Options = debug_flags K Options OR D3DCOMPILE_OPTIMIZATION_LEVEL3 K) \<and>
   (OptimizationLevel Options \<notin> {- 1, 0, 1, 2, 3} \<longrightarrow>
      compilation_flags K Options = debug_flags K Options) \<and>
   run_compilation K Shader Options permutation =
     D3DCompileFromFile K (Path Shader) (macros permutation) (EntryPoint Shader) (Target Shader)
       (compilation_flags K Options) 0"
  by (simp add: compilation_flags_def optimization_switch_def run_compilation_def)

text \<open>With the values of the SDK header the five levels give five different flag words
  (4, 16384, 0, 49152, 32768), and level 1 gives the same word as a level with no case.\<close>

theorem optimization_flag_mapping_witness:
  "compilation_flags sample_backend (release_options\<lparr>OptimizationLevel := - 1\<rparr>) = 4 \<and>
   compilation_flags sample_backend (release_options\<lparr>OptimizationLevel := 0\<rparr>) = 16384 \<and>
   compilation_flags sample_backend (release_options\<lparr>OptimizationLevel := 1\<rparr>) = 0 \<and>
   compilation_flags sample_backend (release_options\<lparr>OptimizationLevel := 2\<rparr>) = 49152 \<and>
   compilation_flags sample_backend (release_options\<lparr>OptimizationLevel := 3\<rparr>) = 32768 \<and>
   compilation_flags sample_backend (release_options\<lparr>OptimizationLevel := 4\<rparr>) = 0 \<and>
   compilation_flags sample_backend (debug_options\<lparr>OptimizationLevel := 7\<rparr>) = 8388609 \<and>
   compilation_flags sample_backend debug_options = 8388613"
  using optimization_flag_mapping [of "release_options\<lparr>OptimizationLevel := - 1\<rparr>" sample_backend]
    optimization_flag_mapping [of "release_options\<lparr>OptimizationLevel := 0\<rparr>" sample_backend]
    optimization_flag_mapping [of "release_options\<lparr>OptimizationLevel := 1\<rparr>" sample_backend]
    optimization_flag_mapping [of "release_options\<lparr>OptimizationLevel := 2\<rparr>" sample_backend]
    optimization_flag_mapping [of "release_options\<lparr>OptimizationLevel := 3\<rparr>" sample_backend]
    optimization_flag_mapping [of "release_options\<lparr>OptimizationLevel := 4\<rparr>" sample_backend]
    optimization_flag_mapping [of "debug_options\<lparr>OptimizationLevel := 7\<rparr>" sample_backend]
    optimization_flag_mapping [of debug_options sample_backend]
  by (simp add: debug_flags_def sample_backend_def release_options_def debug_options_def)

text \<open>
  Claim C5. After a successful compilation whose binary and errors blobs are there: with
  \<open>IsDebug\<close> and \<open>UseExternalDebugSymbols\<close>, both blob parts present, a name that ends
  inside its blob and a stripped blob, \<open>Data\<close> is the stripped binary and \<open>PdbName\<close>,
  \<open>PdbData\<close> are the name and the symbol bytes; without \<open>UseExternalDebugSymbols\<close>, \<open>Data\<close>
  is the binary as compiled and \<open>PdbName\<close>, \<open>PdbData\<close> stay empty.
\<close>

theorem debug_symbol_postprocessing:
  assumes "SUCCEEDED (hr (run_compilation K Shader Options permutation))"
    and "binary (run_compilation K Shader Options permutation) = Some bytes"
    and "errors (run_compilation K Shader Options permutation) = Some text"
  shows "(IsDebug Options \<and> UseExternalDebugSymbols Options \<and>
          D3DGetBlobPart K bytes D3D_BLOB_PDB 0 = Some pdbBytes \<and>
          D3DGetBlobPart K bytes D3D_BLOB_DEBUG_NAME 0 = Some nameBytes \<and>
          c_string_at nameBytes sizeof_ShaderDebugName = Inr fileName \<and>
          D3DStripShader K bytes (D3DCOMPILER_STRIP_DEBUG_INFO K) = Some stripped \<longrightarrow>
          compile_permutation K Shader Options permutation =
            Inr (True,
                 \<lparr>CompiledShader.Key = OptionPermutation.Key permutation, Data = stripped,
                  PdbName = fileName, PdbData = pdbBytes\<rparr>,
                 message_lines text)) \<and>
         (\<not> UseExternalDebugSymbols Options \<longrightarrow>
          compile_permutation K Shader Options permutation =
            Inr (True,
                 \<lparr>CompiledShader.Key = OptionPermutation.Key permutation, Data = bytes,
                  PdbName = [], PdbData = []\<rparr>,
                 message_lines text))"
  using assms
  by (simp add: compile_permutation_def post_process_def debug_information_def save_binary_def
      read_messages_def)

theorem debug_symbol_postprocessing_witness:
  "compile_permutation sample_backend sample_shader debug_options plain =
     Inr (True,
          \<lparr>CompiledShader.Key = ''0'', Data = ''strp'', PdbName = ''a.pdb'', PdbData = ''PDB''\<rparr>,
          message_lines sample_warnings) \<and>
   compile_permutation sample_backend sample_shader release_options plain =
     Inr (True,
          \<lparr>CompiledShader.Key = ''0'', Data = ''DXBC'', PdbName = [], PdbData = []\<rparr>,
          message_lines sample_warnings)"
  using debug_symbol_postprocessing [of sample_backend sample_shader debug_options plain
      "''DXBC''" sample_warnings "''PDB''"
      "[CHR 0x00, CHR 0x00, CHR 0x02, CHR 0x00] @ ''a.pdb'' @ [CHR 0x00]" "''a.pdb''" "''strp''"]
    debug_symbol_postprocessing [of sample_backend sample_shader release_options plain
      "''DXBC''" sample_warnings]
  by (simp add: run_compilation_def macros_def c_str_def SUCCEEDED_def c_string_at_def
      sizeof_ShaderDebugName_def sample_backend_def sample_compile_def sample_part_def
      sample_strip_def debug_options_def release_options_def plain_def)

text \<open>
  Claim C3, as stated, at the sample permutation \<open>fancy\<close>: the compilation succeeds, the
  binary is \<open>DXBCFANCY\<close>, neither blob part is there, and \<open>Data\<close> is the stripped
  \<open>strpFANCY\<close>, not the binary as compiled. Lines 126 to 128 stand after the \<open>if\<close> of line
  116, not inside it.
\<close>

theorem missing_blob_counterexample:
  "IsDebug debug_options \<and> UseExternalDebugSymbols debug_options \<and>
   SUCCEEDED (hr (run_compilation sample_backend sample_shader debug_options fancy)) \<and>
   binary (run_compilation sample_backend sample_shader debug_options fancy) = Some ''DXBCFANCY'' \<and>
   D3DGetBlobPart sample_backend ''DXBCFANCY'' D3D_BLOB_PDB 0 = None \<and>
   D3DGetBlobPart sample_backend ''DXBCFANCY'' D3D_BLOB_DEBUG_NAME 0 = None \<and>
   compile_permutation sample_backend sample_shader debug_options fancy =
     Inr (True,
          \<lparr>CompiledShader.Key = ''1'', Data = ''strpFANCY'', PdbName = [], PdbData = []\<rparr>,
          message_lines sample_warnings)"
  by (simp add: compile_permutation_def run_compilation_def macros_def c_str_def SUCCEEDED_def
      post_process_def debug_information_def save_binary_def read_messages_def
      sample_backend_def sample_compile_def sample_part_def sample_strip_def
      debug_options_def fancy_def)

text \<open>
  Claim C3, amended. After a successful compilation with \<open>IsDebug\<close> and
  \<open>UseExternalDebugSymbols\<close>, when the symbol part or the name part is missing and the
  strip call gives a blob, \<open>Data\<close> is the stripped binary, \<open>PdbName\<close> and \<open>PdbData\<close> stay
  empty, and the worker goes on as for any success: the result is appended to \<open>Output\<close>
  and \<open>IsFailed\<close> is not written.
\<close>

theorem missing_blob_degradation:
  assumes "SUCCEEDED (hr (run_compilation K Shader Options permutation))"
    and "binary (run_compilation K Shader Options permutation) = Some bytes"
    and "errors (run_compilation K Shader Options permutation) = Some text"
    and "IsDebug Options" and "UseExternalDebugSymbols Options"
    and "D3DGetBlobPart K bytes D3D_BLOB_PDB 0 = None \<or>
         D3DGetBlobPart K bytes D3D_BLOB_DEBUG_NAME 0 = None"
    and "D3DStripShader K bytes (D3DCOMPILER_STRIP_DEBUG_INFO K) = Some stripped"
  shows "compile_permutation K Shader Options permutation =
           Inr (True,
                \<lparr>CompiledShader.Key = OptionPermutation.Key permutation, Data = stripped,
                 PdbName = [], PdbData = []\<rparr>,
                message_lines text) \<and>
         worker_step K Shader Options (RunCompilation permutation) context =
           Some (GetLine True
                   \<lparr>CompiledShader.Key = OptionPermutation.Key permutation, Data = stripped,
                    PdbName = [], PdbData = []\<rparr>
                   (message_lines text),
                 context\<lparr>Compiled := Compiled context @ [permutation]\<rparr>) \<and>
         worker_step K Shader Options (GetLine True result []) context =
           Some (GetWorkItem, context\<lparr>Output := Output context @ [result]\<rparr>)"
proof -
  have "compile_permutation K Shader Options permutation =
           Inr (True,
                \<lparr>CompiledShader.Key = OptionPermutation.Key permutation, Data = stripped,
                 PdbName = [], PdbData = []\<rparr>,
                message_lines text)"
    using assms
    by (auto simp add: compile_permutation_def post_process_def debug_information_def
        save_binary_def read_messages_def Let_def split: option.splits)
  then show ?thesis by simp
qed

theorem missing_blob_degradation_witness:
  "compile_permutation sample_backend sample_shader debug_options fancy =
     Inr (True,
          \<lparr>CompiledShader.Key = ''1'', Data = ''strpFANCY'', PdbName = [], PdbData = []\<rparr>,
          message_lines sample_warnings)"
  using missing_blob_degradation [of sample_backend sample_shader debug_options fancy
      "''DXBCFANCY''" sample_warnings "''strpFANCY''"]
  by (simp add: run_compilation_def macros_def c_str_def SUCCEEDED_def sample_backend_def
      sample_compile_def sample_part_def sample_strip_def debug_options_def fancy_def)

text \<open>
  Claim C9. With both blob parts present, \<open>PdbName\<close> is the bytes of the name part from
  offset 4 up to the first NUL, whatever the four header bytes (flags and name length)
  hold.
\<close>

theorem debug_name_parsing:
  assumes "SUCCEEDED (hr (run_compilation K Shader Options permutation))"
    and "binary (run_compilation K Shader Options permutation) = Some bytes"
    and "errors (run_compilation K Shader Options permutation) = Some text"
    and "IsDebug Options" and "UseExternalDebugSymbols Options"
    and "D3DGetBlobPart K bytes D3D_BLOB_PDB 0 = Some pdbBytes"
    and "D3DGetBlobPart K bytes D3D_BLOB_DEBUG_NAME 0 = Some (header @ name @ CHR 0x00 # rest)"
    and "length header = 4" and "CHR 0x00 \<notin> set name"
    and "D3DStripShader K bytes (D3DCOMPILER_STRIP_DEBUG_INFO K) = Some stripped"
  shows "compile_permutation K Shader Options permutation =
           Inr (True,
                \<lparr>CompiledShader.Key = OptionPermutation.Key permutation, Data = stripped,
                 PdbName = name, PdbData = pdbBytes\<rparr>,
                message_lines text)"
proof -
  have "takeWhile (\<lambda>c. c \<noteq> CHR 0x00) (name @ CHR 0x00 # rest) = name"
    using assms(9) by (subst takeWhile_append2) auto
  then have "c_string_at (header @ name @ CHR 0x00 # rest) sizeof_ShaderDebugName = Inr name"
    using assms(8) by (simp add: c_string_at_def sizeof_ShaderDebugName_def)
  then show ?thesis
    using assms
    by (simp add: compile_permutation_def post_process_def debug_information_def
        save_binary_def read_messages_def)
qed

theorem debug_name_parsing_witness:
  "D3DGetBlobPart sample_backend ''DXBC'' D3D_BLOB_DEBUG_NAME 0 =
     Some ([CHR 0x00, CHR 0x00, CHR 0x02, CHR 0x00] @ ''a.pdb'' @ [CHR 0x00]) \<and>
   length ''a.pdb'' = 5 \<and>
   compile_permutation sample_backend sample_shader debug_options plain =
     Inr (True,
          \<lparr>CompiledShader.Key = ''0'', Data = ''strp'', PdbName = ''a.pdb'', PdbData = ''PDB''\<rparr>,
          message_lines sample_warnings)"
  using debug_name_parsing [of sample_backend sample_shader debug_options plain
      "''DXBC''" sample_warnings "''PDB''" "[CHR 0x00, CHR 0x00, CHR 0x02, CHR 0x00]"
      "''a.pdb''" "[]" "''strp''"]
  by (simp add: run_compilation_def macros_def c_str_def SUCCEEDED_def sample_backend_def
      sample_compile_def sample_part_def sample_strip_def debug_options_def plain_def)

text \<open>The length field sets no bound: a name part with no NUL after its header is read
  past its end.\<close>

lemma debug_name_unterminated:
  assumes "SUCCEEDED (hr (run_compilation K Shader Options permutation))"
    and "binary (run_compilation K Shader Options permutation) = Some bytes"
    and "IsDebug Options" and "UseExternalDebugSymbols Options"
    and "D3DGetBlobPart K bytes D3D_BLOB_PDB 0 = Some pdbBytes"
    and "D3DGetBlobPart K bytes D3D_BLOB_DEBUG_NAME 0 = Some nameBytes"
    and "CHR 0x00 \<notin> set (drop 4 nameBytes)"
  shows "compile_permutation K Shader Options permutation = Inl OutOfBoundsRead"
  using assms
  by (simp add: compile_permutation_def post_process_def debug_information_def
      c_string_at_def sizeof_ShaderDebugName_def)

text \<open>
  Claim C10. Reading the messages dereferences the errors blob unconditionally: it is a
  null-pointer access exactly when the backend left the pointer null. A permutation whose
  call leaves it null never gets through lines 53 to 139; after a successful compilation
  with a binary and no external debug symbols the null-pointer access of line 139 is the
  fault, and the thread stops there. With an errors blob a failed compilation gets
  through.
\<close>

theorem diagnostics_blob_dereference:
  "(read_messages errs = Inl NullPointerAccess \<longleftrightarrow> errs = None) \<and>
   (errors (run_compilation K Shader Options permutation) = None \<longrightarrow>
      (\<exists>f. compile_permutation K Shader Options permutation = Inl f)) \<and>
   (errors (run_compilation K Shader Options permutation) = None \<and>
    SUCCEEDED (hr (run_compilation K Shader Options permutation)) \<and>
    binary (run_compilation K Shader Options permutation) = Some bytes \<and>
    \<not> UseExternalDebugSymbols Options \<longrightarrow>
      compile_permutation K Shader Options permutation = Inl NullPointerAccess \<and>
      worker_step K Shader Options (RunCompilation permutation) context =
        Some (Fault NullPointerAccess, context\<lparr>Compiled := Compiled context @ [permutation]\<rparr>)) \<and>
   (errors (run_compilation K Shader Options permutation) = Some text \<and>
    \<not> SUCCEEDED (hr (run_compilation K Shader Options permutation)) \<longrightarrow>
      compile_permutation K Shader Options permutation =
        Inr (False,
             \<lparr>CompiledShader.Key = OptionPermutation.Key permutation, Data = [],
              PdbName = [], PdbData = []\<rparr>,
             message_lines text))"
  by (auto simp add: compile_permutation_def post_process_def save_binary_def read_messages_def
      Let_def split: option.splits sum.splits)

theorem diagnostics_blob_dereference_witness:
  "compile_permutation sample_backend sample_shader release_options quiet = Inl NullPointerAccess \<and>
   errors (run_compilation sample_backend sample_shader release_options quiet) = None \<and>
   compile_permutation sample_backend sample_shader release_options broken =
     Inr (False,
          \<lparr>CompiledShader.Key = ''2'', Data = [], PdbName = [], PdbData = []\<rparr>,
          [''error X3000''])"
  using diagnostics_blob_dereference [of None sample_backend sample_shader release_options quiet
      "''DXBC''" undefined undefined]
    diagnostics_blob_dereference [of None sample_backend sample_shader release_options broken
      undefined undefined "''error X3000'' @ [CHR 0x0A]"]
  by (simp add: run_compilation_def macros_def c_str_def SUCCEEDED_def message_lines_def sample_backend_def
      sample_compile_def release_options_def quiet_def broken_def)

section \<open>Steps and runs\<close>

text \<open>The steps a thread can make, as a case rule.\<close>

lemma worker_step_cases [consumes 1, case_names return take fault compiled skip lookup found
    insert print publish fail]:
  assumes "worker_step K Shader Options w context = Some (w', context')"
  obtains
    "w = GetWorkItem" "Input context = []" "w' = Return" "context' = context"
  | p rest where "w = GetWorkItem" "Input context = p # rest" "w' = RunCompilation p"
      "context' = context\<lparr>Input := rest\<rparr>"
  | p f where "w = RunCompilation p" "compile_permutation K Shader Options p = Inl f"
      "w' = Fault f" "context' = context\<lparr>Compiled := Compiled context @ [p]\<rparr>"
  | p success result lines where "w = RunCompilation p"
      "compile_permutation K Shader Options p = Inr (success, result, lines)"
      "w' = GetLine success result lines"
      "context' = context\<lparr>Compiled := Compiled context @ [p]\<rparr>"
  | success result m lines where "w = GetLine success result (m # lines)"
      "warningIgnoreRegex m" "w' = GetLine success result lines" "context' = context"
  | success result m lines where "w = GetLine success result (m # lines)"
      "\<not> warningIgnoreRegex m" "w' = Emplace success result lines m (m \<in> Messages context)"
      "context' = context"
  | success result m lines where "w = Emplace success result lines m True"
      "w' = GetLine success result lines" "context' = context"
  | success result m lines where "w = Emplace success result lines m False"
      "w' = Printf success result lines m"
      "context' = context\<lparr>Messages := insert m (Messages context)\<rparr>"
  | success result m lines where "w = Printf success result lines m"
      "w' = GetLine success result lines"
      "context' = context\<lparr>Printed := Printed context @ [c_str m]\<rparr>"
  | result where "w = GetLine True result []" "w' = GetWorkItem"
      "context' = context\<lparr>Output := Output context @ [result]\<rparr>"
  | result where "w = GetLine False result []" "w' = GetWorkItem"
      "context' = context\<lparr>IsFailed := True\<rparr>"
proof (cases w)
  case GetWorkItem
  show ?thesis
  proof (cases "Input context")
    case Nil
    show ?thesis
      by (rule that(1)) (use assms GetWorkItem Nil in simp_all)
  next
    case (Cons p rest)
    show ?thesis
      by (rule that(2) [of p rest]) (use assms GetWorkItem Cons in simp_all)
  qed
next
  case (RunCompilation p)
  show ?thesis
  proof (cases "compile_permutation K Shader Options p")
    case (Inl f)
    show ?thesis
      by (rule that(3) [of p f]) (use assms RunCompilation Inl in simp_all)
  next
    case (Inr x)
    obtain success result lines where x: "x = (success, result, lines)"
      by (cases x) auto
    show ?thesis
      by (rule that(4) [of p success result lines]) (use assms RunCompilation Inr x in simp_all)
  qed
next
  case (GetLine success result lines)
  show ?thesis
  proof (cases lines)
    case Nil
    show ?thesis
    proof (cases success)
      case True
      show ?thesis
        by (rule that(10) [of result]) (use assms GetLine Nil True in simp_all)
    next
      case False
      show ?thesis
        by (rule that(11) [of result]) (use assms GetLine Nil False in simp_all)
    qed
  next
    case (Cons m rest)
    show ?thesis
    proof (cases "warningIgnoreRegex m")
      case True
      show ?thesis
        by (rule that(5) [of success result m rest]) (use assms GetLine Cons True in simp_all)
    next
      case False
      show ?thesis
        by (rule that(6) [of success result m rest]) (use assms GetLine Cons False in auto)
    qed
  qed
next
  case (Emplace success result lines m found)
  show ?thesis
  proof (cases found)
    case True
    show ?thesis
      by (rule that(7) [of success result lines m]) (use assms Emplace True in simp_all)
  next
    case False
    show ?thesis
      by (rule that(8) [of success result lines m]) (use assms Emplace False in simp_all)
  qed
next
  case (Printf success result lines m)
  show ?thesis
    by (rule that(9) [of success result lines m]) (use assms Printf in simp_all)
next
  case Return
  with assms show ?thesis by simp
next
  case (Fault f)
  with assms show ?thesis by simp
qed

text \<open>Each step keeps the four relations, lowers the bound and keeps a fault-free state
  fault-free, whatever the other threads \<open>R\<close> hold.\<close>

lemma worker_step_queue_accounted:
  assumes "worker_step K Shader Options w context = Some (w', context')"
    and "queue_accounted permutations (add_mset w R) context"
  shows "queue_accounted permutations (add_mset w' R) context'"
  using assms
  by (cases rule: worker_step_cases) (auto simp add: queue_accounted_def)

lemma worker_step_output_accounted:
  assumes "worker_step K Shader Options w context = Some (w', context')"
    and "output_accounted K Shader Options (add_mset w R) context"
  shows "output_accounted K Shader Options (add_mset w' R) context'"
  using assms
  by (cases rule: worker_step_cases) (auto simp add: output_accounted_def artifact_def)

lemma worker_step_failure_accounted:
  assumes "worker_step K Shader Options w context = Some (w', context')"
    and "failure_accounted K Shader Options (add_mset w R) context"
  shows "failure_accounted K Shader Options (add_mset w' R) context'"
  using assms
  by (cases rule: worker_step_cases) (auto simp add: failure_accounted_def failure_def)

lemma worker_step_fault_accounted:
  assumes "worker_step K Shader Options w context = Some (w', context')"
    and "fault_accounted K Shader Options (add_mset w R) context"
  shows "fault_accounted K Shader Options (add_mset w' R) context'"
  using assms
  by (cases rule: worker_step_cases) (auto simp add: fault_accounted_def is_Fault_def)

lemma worker_step_steps_left:
  assumes "worker_step K Shader Options w context = Some (w', context')"
  shows "steps_left K Shader Options (add_mset w' R) context'
           < steps_left K Shader Options (add_mset w R) context"
  using assms
  by (cases rule: worker_step_cases) (simp_all add: steps_left_def)

lemma worker_step_fault_free:
  assumes "worker_step K Shader Options w context = Some (w', context')"
    and "fault_free K Shader Options (add_mset w R) context"
  shows "fault_free K Shader Options (add_mset w' R) context'"
  using assms
  by (cases rule: worker_step_cases) (auto simp add: fault_free_def is_Fault_def)

text \<open>A step of the process is a step of one thread beside the others.\<close>

lemma step_split:
  assumes "step K Shader Options t c = Some c'"
  obtains w w' R where "mset (fst c) = add_mset w R" and "mset (fst c') = add_mset w' R"
    and "worker_step K Shader Options w (snd c) = Some (w', snd c')"
    and "length (fst c') = length (fst c)"
    and "racing (fst c) t = (calls_emplace w \<and> (\<exists>u\<in>#R. in_emplace u))"
proof -
  let ?rest = "take t (fst c) @ drop (Suc t) (fst c)"
  from assms have t: "t < length (fst c)"
    by (auto simp add: step_def split: if_splits)
  from assms t obtain w' context' where
    ws: "worker_step K Shader Options (fst c ! t) (snd c) = Some (w', context')"
    and c': "c' = ((fst c)[t := w'], context')"
    by (auto simp add: step_def split: if_splits option.splits)
  have "mset (fst c) = mset (take t (fst c) @ fst c ! t # drop (Suc t) (fst c))"
    using t by (simp only: id_take_nth_drop [symmetric])
  then have 1: "mset (fst c) = add_mset (fst c ! t) (mset ?rest)"
    by simp
  have "mset (fst c') = mset (take t (fst c) @ w' # drop (Suc t) (fst c))"
    using t c' by (simp add: upd_conv_take_nth_drop)
  then have 2: "mset (fst c') = add_mset w' (mset ?rest)"
    by simp
  have 3: "racing (fst c) t = (calls_emplace (fst c ! t) \<and> (\<exists>u\<in>#mset ?rest. in_emplace u))"
    using t by (simp add: racing_def list_ex_iff)
  from c' have 4: "length (fst c') = length (fst c)" by simp
  from ws c' have 5: "worker_step K Shader Options (fst c ! t) (snd c) = Some (w', snd c')"
    by simp
  show ?thesis
    by (rule that [OF 1 2 5 4 3])
qed

lemma step_steps_left:
  assumes "step K Shader Options t c = Some c'"
  shows "steps_left K Shader Options (mset (fst c')) (snd c')
           < steps_left K Shader Options (mset (fst c)) (snd c)"
proof -
  from assms obtain w w' R where "mset (fst c) = add_mset w R" "mset (fst c') = add_mset w' R"
    "worker_step K Shader Options w (snd c) = Some (w', snd c')"
    by (rule step_split)
  then show ?thesis
    using worker_step_steps_left [of K Shader Options w "snd c" w' "snd c'" R] by simp
qed

lemma exec_invariant:
  assumes "exec K Shader Options schedule c = Some c'"
    and "I (mset (fst c)) (snd c)"
    and "\<And>w w' R context context'.
           worker_step K Shader Options w context = Some (w', context')
           \<Longrightarrow> I (add_mset w R) context \<Longrightarrow> I (add_mset w' R) context'"
  shows "I (mset (fst c')) (snd c')"
  using assms(1,2)
proof (induction schedule arbitrary: c)
  case Nil
  then show ?case by simp
next
  case (Cons t schedule)
  from Cons.prems(1) obtain c1 where s: "step K Shader Options t c = Some c1"
    and e: "exec K Shader Options schedule c1 = Some c'"
    by (auto split: option.splits)
  from s obtain w w' R where "mset (fst c) = add_mset w R" "mset (fst c1) = add_mset w' R"
    "worker_step K Shader Options w (snd c) = Some (w', snd c1)"
    by (rule step_split)
  with Cons.prems(2) assms(3) have "I (mset (fst c1)) (snd c1)"
    by metis
  with Cons.IH e show ?case by blast
qed

lemma exec_invariant_race_free:
  assumes "exec K Shader Options schedule c = Some c'"
    and "race_free K Shader Options schedule c"
    and "I (mset (fst c)) (snd c)"
    and "\<And>w w' R context context'.
           worker_step K Shader Options w context = Some (w', context')
           \<Longrightarrow> \<not> (calls_emplace w \<and> (\<exists>u\<in>#R. in_emplace u))
           \<Longrightarrow> I (add_mset w R) context \<Longrightarrow> I (add_mset w' R) context'"
  shows "I (mset (fst c')) (snd c')"
  using assms(1,2,3)
proof (induction schedule arbitrary: c)
  case Nil
  then show ?case by simp
next
  case (Cons t schedule)
  from Cons.prems(1) obtain c1 where s: "step K Shader Options t c = Some c1"
    and e: "exec K Shader Options schedule c1 = Some c'"
    by (auto split: option.splits)
  from Cons.prems(2) s have n: "\<not> racing (fst c) t"
    and r: "race_free K Shader Options schedule c1"
    by simp_all
  from s obtain w w' R where "mset (fst c) = add_mset w R" "mset (fst c1) = add_mset w' R"
    "worker_step K Shader Options w (snd c) = Some (w', snd c1)"
    "racing (fst c) t = (calls_emplace w \<and> (\<exists>u\<in>#R. in_emplace u))"
    by (rule step_split)
  with Cons.prems(3) n assms(4) have "I (mset (fst c1)) (snd c1)"
    by metis
  with Cons.IH e r show ?case by blast
qed

lemma exec_length:
  assumes "exec K Shader Options schedule c = Some c'"
  shows "length (fst c') = length (fst c)"
  using assms
proof (induction schedule arbitrary: c)
  case Nil
  then show ?case by simp
next
  case (Cons t schedule)
  from Cons.prems obtain c1 where s: "step K Shader Options t c = Some c1"
    and e: "exec K Shader Options schedule c1 = Some c'"
    by (auto split: option.splits)
  from s have "length (fst c1) = length (fst c)"
    by (rule step_split)
  with Cons.IH e show ?case by simp
qed

text \<open>A single thread has no other thread to race with.\<close>

lemma race_free_single:
  assumes "length (fst c) \<le> 1"
  shows "race_free K Shader Options schedule c"
  using assms
proof (induction schedule arbitrary: c)
  case Nil
  then show ?case by simp
next
  case (Cons t schedule)
  have "\<not> racing (fst c) t"
    using Cons.prems by (cases "fst c") (auto simp add: racing_def)
  moreover have "race_free K Shader Options schedule c1"
    if "step K Shader Options t c = Some c1" for c1
  proof -
    from that have "length (fst c1) = length (fst c)"
      by (rule step_split)
    with Cons.prems Cons.IH show ?thesis by simp
  qed
  ultimately show ?case
    by (simp split: option.splits)
qed

lemma exec_append:
  "exec K Shader Options (schedule @ schedule') c =
     (case exec K Shader Options schedule c of
        None \<Rightarrow> None
      | Some c' \<Rightarrow> exec K Shader Options schedule' c')"
  by (induction schedule arbitrary: c) (auto split: option.splits)

lemma exec_bounded:
  assumes "exec K Shader Options schedule c = Some c'"
  shows "length schedule + steps_left K Shader Options (mset (fst c')) (snd c')
           \<le> steps_left K Shader Options (mset (fst c)) (snd c)"
  using assms
proof (induction schedule arbitrary: c)
  case Nil
  then show ?case by simp
next
  case (Cons t schedule)
  from Cons.prems obtain c1 where s: "step K Shader Options t c = Some c1"
    and e: "exec K Shader Options schedule c1 = Some c'"
    by (auto split: option.splits)
  from Cons.IH [OF e] step_steps_left [OF s] show ?case by simp
qed

lemma no_threads:
  assumes "exec K Shader Options schedule c = Some c'" and "fst c = []"
  shows "c' = c" and "schedule = []"
  using assms by (cases schedule; simp add: step_def)+

text \<open>The relations hold at the start, hence after every schedule.\<close>

lemma sum_replicate_GetWorkItem:
  "(\<Sum>w\<in>#mset (replicate n GetWorkItem). taken w) = {#}"
  "(\<Sum>w\<in>#mset (replicate n GetWorkItem). unpublished w) = {#}"
  by (induction n) simp_all

lemma start_accounted:
  "queue_accounted permutations (mset (fst (start C permutations))) (snd (start C permutations))"
  "output_accounted K Shader Options (mset (fst (start C permutations))) (snd (start C permutations))"
  "failure_accounted K Shader Options (mset (fst (start C permutations))) (snd (start C permutations))"
  "fault_accounted K Shader Options (mset (fst (start C permutations))) (snd (start C permutations))"
  by (simp_all add: queue_accounted_def output_accounted_def failure_accounted_def
      fault_accounted_def start_def sum_replicate_GetWorkItem)

lemma reachable_accounted:
  assumes "exec K Shader Options schedule (start C permutations) = Some c"
  shows "queue_accounted permutations (mset (fst c)) (snd c)"
    and "output_accounted K Shader Options (mset (fst c)) (snd c)"
    and "failure_accounted K Shader Options (mset (fst c)) (snd c)"
    and "fault_accounted K Shader Options (mset (fst c)) (snd c)"
proof -
  show "queue_accounted permutations (mset (fst c)) (snd c)"
    by (rule exec_invariant [OF assms, where I = "queue_accounted permutations"])
      (simp_all add: start_accounted worker_step_queue_accounted)
  show "output_accounted K Shader Options (mset (fst c)) (snd c)"
    by (rule exec_invariant [OF assms, where I = "output_accounted K Shader Options"])
      (simp_all add: start_accounted worker_step_output_accounted)
  show "failure_accounted K Shader Options (mset (fst c)) (snd c)"
    by (rule exec_invariant [OF assms, where I = "failure_accounted K Shader Options"])
      (simp_all add: start_accounted worker_step_failure_accounted)
  show "fault_accounted K Shader Options (mset (fst c)) (snd c)"
    by (rule exec_invariant [OF assms, where I = "fault_accounted K Shader Options"])
      (simp_all add: start_accounted worker_step_fault_accounted)
qed

lemma start_fault_free:
  assumes "\<forall>p\<in>set permutations. \<not> isl (compile_permutation K Shader Options p)"
  shows "fault_free K Shader Options (mset (fst (start C permutations)))
           (snd (start C permutations))"
  using assms
  by (auto simp add: fault_free_def start_def list_all_iff is_Fault_def)

lemma reachable_fault_free:
  assumes "exec K Shader Options schedule (start C permutations) = Some c"
    and "\<forall>p\<in>set permutations. \<not> isl (compile_permutation K Shader Options p)"
  shows "fault_free K Shader Options (mset (fst c)) (snd c)"
  by (rule exec_invariant [OF assms(1), where I = "fault_free K Shader Options"])
    (simp_all add: start_fault_free [OF assms(2)] worker_step_fault_free)

text \<open>Once every thread has returned, nothing is held back.\<close>

lemma joined_sums:
  assumes "joined threads"
  shows "(\<Sum>w\<in>#mset threads. taken w) = {#}"
    and "(\<Sum>w\<in>#mset threads. unpublished w) = {#}"
    and "\<not> (\<exists>w\<in>#mset threads. unreported w)"
    and "\<not> (\<exists>w\<in>#mset threads. is_Fault w)"
    and "threads \<noteq> [] \<Longrightarrow> Return \<in># mset threads"
  using assms
  by (induction threads) (auto simp add: joined_def is_Fault_def)

text \<open>Termination: a thread that has not returned can move unless some thread has faulted,
  so a fault-free state reaches one where all threads have returned; by \<open>exec_bounded\<close>
  no schedule is longer than the bound of its first state.\<close>

lemma step_progress:
  assumes "\<not> joined (fst c)" and "\<not> list_ex is_Fault (fst c)"
  shows "\<exists>t c'. step K Shader Options t c = Some c'"
proof -
  from assms(1) obtain t where t: "t < length (fst c)" and r: "fst c ! t \<noteq> Return"
    by (auto simp add: joined_def list_all_length)
  from assms(2) t have f: "\<not> is_Fault (fst c ! t)"
    by (auto simp add: list_ex_iff)
  have "worker_step K Shader Options (fst c ! t) (snd c) \<noteq> None"
  proof (cases "fst c ! t")
    case (GetLine success result lines)
    then show ?thesis by (cases lines) simp_all
  qed (use r f in \<open>auto simp add: is_Fault_def split: list.splits sum.splits\<close>)
  then obtain w' context' where
    "worker_step K Shader Options (fst c ! t) (snd c) = Some (w', context')"
    by auto
  with t assms(2) have "step K Shader Options t c = Some ((fst c)[t := w'], context')"
    by (simp add: step_def)
  then show ?thesis by blast
qed

lemma fault_free_completes:
  assumes "fault_free K Shader Options (mset (fst c)) (snd c)"
  shows "\<exists>schedule c'. exec K Shader Options schedule c = Some c' \<and> joined (fst c')"
  using assms
proof (induction c rule: measure_induct_rule
    [of "\<lambda>c. steps_left K Shader Options (mset (fst c)) (snd c)"])
  case (less c)
  show ?case
  proof (cases "joined (fst c)")
    case True
    then have "exec K Shader Options [] c = Some c \<and> joined (fst c)" by simp
    then show ?thesis by blast
  next
    case False
    from less.prems have "\<not> list_ex is_Fault (fst c)"
      by (auto simp add: fault_free_def list_ex_iff)
    with False obtain t c1 where s: "step K Shader Options t c = Some c1"
      using step_progress by blast
    from s obtain w w' R where "mset (fst c) = add_mset w R" "mset (fst c1) = add_mset w' R"
      "worker_step K Shader Options w (snd c) = Some (w', snd c1)"
      by (rule step_split)
    with less.prems have "fault_free K Shader Options (mset (fst c1)) (snd c1)"
      using worker_step_fault_free by metis
    with less.IH [OF step_steps_left [OF s]] obtain schedule c' where
      "exec K Shader Options schedule c1 = Some c'" "joined (fst c')"
      by blast
    with s have "exec K Shader Options (t # schedule) c = Some c' \<and> joined (fst c')"
      by simp
    then show ?thesis by blast
  qed
qed

lemma CompileShader_continues:
  assumes "exec K Shader Options schedule (start C permutations) = Some c"
    and "\<forall>p\<in>set permutations. \<not> isl (compile_permutation K Shader Options p)"
  shows "\<exists>schedule' r. CompileShader K C Shader Options permutations (schedule @ schedule') = Some r"
proof -
  from fault_free_completes [OF reachable_fault_free [OF assms]] obtain schedule' c' where
    "exec K Shader Options schedule' c = Some c'" "joined (fst c')"
    by blast
  with assms(1) have
    "CompileShader K C Shader Options permutations (schedule @ schedule') = Some (returned (snd c'))"
    by (simp add: CompileShader_def CompileShader_run_def exec_append wait_over_def)
  then show ?thesis by blast
qed

lemma CompileShader_completes:
  assumes "\<forall>p\<in>set permutations. \<not> isl (compile_permutation K Shader Options p)"
  shows "\<exists>schedule r. CompileShader K C Shader Options permutations schedule = Some r"
  using CompileShader_continues [of K Shader Options "[]" C permutations, OF _ assms] by simp

text \<open>What lines 53 to 139 give back: the success flag is that of the \<open>HRESULT\<close>, and the
  key is the permutation's.\<close>

lemma compile_permutation_result:
  assumes "compile_permutation K Shader Options p = Inr (success, result, lines)"
  shows "success = SUCCEEDED (hr (run_compilation K Shader Options p))"
    and "CompiledShader.Key result = OptionPermutation.Key p"
  using assms
  by (auto simp add: compile_permutation_def post_process_def debug_information_def
      save_binary_def Let_def split: sum.splits option.splits if_splits)

text \<open>With at most 64 threads, a run of \<open>CompileShader\<close> is a schedule from the start to a
  state where all threads have returned; there the relations speak about the context
  alone.\<close>

lemma CompileShader_run_exec:
  assumes "CompileShader_run K C Shader Options permutations schedule = Some ctx"
    and "threadCount C (length permutations) \<le> MAXIMUM_WAIT_OBJECTS"
  obtains threads where
    "exec K Shader Options schedule (start C permutations) = Some (threads, ctx)"
    and "joined threads" and "length threads = threadCount C (length permutations)"
proof -
  from assms(1) obtain c where
    e: "exec K Shader Options schedule (start C permutations) = Some c"
    and w: "wait_over (fst c)" and s: "snd c = ctx"
    by (auto simp add: CompileShader_run_def split: option.splits if_splits)
  from exec_length [OF e] have l: "length (fst c) = threadCount C (length permutations)"
    by (simp add: start_def)
  with w assms(2) have "joined (fst c)"
    by (simp add: wait_over_def)
  with e l s that [of "fst c"] show ?thesis by auto
qed

lemma run_accounted:
  assumes "CompileShader_run K C Shader Options permutations schedule = Some ctx"
    and "threadCount C (length permutations) \<le> MAXIMUM_WAIT_OBJECTS"
  shows "mset (Input ctx) + mset (Compiled ctx) = mset permutations"
    and "0 < C \<Longrightarrow> Input ctx = []"
    and "mset (Output ctx) = (\<Sum>p\<in>#mset (Compiled ctx). artifact K Shader Options p)"
    and "IsFailed ctx = list_ex (failure K Shader Options) (Compiled ctx)"
    and "\<forall>p\<in>set (Compiled ctx). \<not> isl (compile_permutation K Shader Options p)"
proof -
  from assms obtain threads where
    e: "exec K Shader Options schedule (start C permutations) = Some (threads, ctx)"
    and j: "joined threads" and l: "length threads = threadCount C (length permutations)"
    by (rule CompileShader_run_exec)
  note a = reachable_accounted [OF e] and js = joined_sums [OF j]
  from a(1) js(1) show q: "mset (Input ctx) + mset (Compiled ctx) = mset permutations"
    by (simp add: queue_accounted_def)
  show "Input ctx = []" if "0 < C"
  proof (cases "permutations = []")
    case True
    with q show ?thesis by simp
  next
    case False
    then have "0 < length permutations" by simp
    with that l have "0 < length threads"
      by (simp add: threadCount_def)
    then have "threads \<noteq> []" by simp
    with js(5) a(1) show ?thesis
      by (simp add: queue_accounted_def)
  qed
  from a(2) js(2) show
    "mset (Output ctx) = (\<Sum>p\<in>#mset (Compiled ctx). artifact K Shader Options p)"
    by (simp add: output_accounted_def)
  from a(3) js(3) show "IsFailed ctx = list_ex (failure K Shader Options) (Compiled ctx)"
    by (simp add: failure_accounted_def)
  from a(4) js(4) show "\<forall>p\<in>set (Compiled ctx). \<not> isl (compile_permutation K Shader Options p)"
    by (auto simp add: fault_accounted_def list_ex_iff)
qed

lemma run_failure:
  assumes "CompileShader_run K C Shader Options permutations schedule = Some ctx"
    and "threadCount C (length permutations) \<le> MAXIMUM_WAIT_OBJECTS"
    and "p \<in> set (Compiled ctx)"
    and "\<not> SUCCEEDED (hr (run_compilation K Shader Options p))"
  shows "IsFailed ctx"
proof -
  from run_accounted(5) [OF assms(1,2)] assms(3)
  obtain success result lines where
    c: "compile_permutation K Shader Options p = Inr (success, result, lines)"
    by (cases "compile_permutation K Shader Options p") auto
  with compile_permutation_result(1) [OF c] assms(4) have "failure K Shader Options p"
    by (simp add: failure_def)
  with run_accounted(4) [OF assms(1,2)] assms(3) show ?thesis
    by (auto simp add: list_ex_iff)
qed

text \<open>A permutation whose compilation faults keeps \<open>CompileShader\<close> from returning: with a
  worker started and the wait of line 184 in force, every run compiles it.\<close>

lemma faulting_permutation_no_run:
  assumes "0 < C"
    and "threadCount C (length permutations) \<le> MAXIMUM_WAIT_OBJECTS"
    and "p \<in> set permutations"
    and "isl (compile_permutation K Shader Options p)"
  shows "CompileShader_run K C Shader Options permutations schedule = None"
proof (cases "CompileShader_run K C Shader Options permutations schedule")
  case None
  then show ?thesis .
next
  case (Some ctx)
  from run_accounted(1,2) [OF Some assms(2)] assms(1)
  have "mset (Compiled ctx) = mset permutations" by simp
  then have "set (Compiled ctx) = set permutations" by (rule mset_eq_setD)
  with run_accounted(5) [OF Some assms(2)] assms(3,4) show ?thesis by blast
qed

lemma faulting_permutation_no_return:
  assumes "0 < C"
    and "threadCount C (length permutations) \<le> MAXIMUM_WAIT_OBJECTS"
    and "p \<in> set permutations"
    and "isl (compile_permutation K Shader Options p)"
  shows "CompileShader K C Shader Options permutations schedule = None"
  using faulting_permutation_no_run [OF assms]
  by (simp add: CompileShader_def)

lemma artifacts_of_successes:
  assumes "\<forall>p\<in>#M. \<exists>result lines. compile_permutation K Shader Options p = Inr (True, result, lines)"
  shows "(\<Sum>p\<in>#M. artifact K Shader Options p)
           = image_mset (\<lambda>p. fst (snd (projr (compile_permutation K Shader Options p)))) M"
  using assms
  by (induction M) (auto simp add: artifact_def)

text \<open>The sample backend, evaluated.\<close>

lemma sample_lines:
  "message_lines sample_warnings = [sample_ignored, ''warning X3206'']"
  by (simp add: message_lines_def sample_warnings_def sample_ignored_def)

lemma sample_regex:
  "warningIgnoreRegex sample_ignored"
  "\<not> warningIgnoreRegex ''warning X3206''"
  "\<not> warningIgnoreRegex ''error X3000''"
  by (simp_all add: warningIgnoreRegex_def ignored_pragmas_def ignored_warning_def dot_def
      sample_ignored_def)

lemma sample_release:
  "compile_permutation sample_backend sample_shader release_options plain =
     Inr (True, \<lparr>CompiledShader.Key = ''0'', Data = ''DXBC'', PdbName = [], PdbData = []\<rparr>,
          [sample_ignored, ''warning X3206''])"
  "compile_permutation sample_backend sample_shader release_options fancy =
     Inr (True, \<lparr>CompiledShader.Key = ''1'', Data = ''DXBCFANCY'', PdbName = [], PdbData = []\<rparr>,
          [sample_ignored, ''warning X3206''])"
  "compile_permutation sample_backend sample_shader release_options broken =
     Inr (False, \<lparr>CompiledShader.Key = ''2'', Data = [], PdbName = [], PdbData = []\<rparr>,
          [''error X3000''])"
    apply (simp_all add: compile_permutation_def run_compilation_def macros_def c_str_def
      SUCCEEDED_def post_process_def save_binary_def read_messages_def sample_lines
      sample_backend_def sample_compile_def release_options_def plain_def fancy_def broken_def)
  apply (simp add: message_lines_def)
  done

lemma sample_null_errors:
  "compile_permutation sample_backend sample_shader release_options quiet =
     Inl NullPointerAccess"
  "compile_permutation sample_backend sample_shader release_options silent =
     Inl NullPointerAccess"
  by (simp_all add: compile_permutation_def run_compilation_def macros_def c_str_def
      SUCCEEDED_def post_process_def save_binary_def read_messages_def
      sample_backend_def sample_compile_def release_options_def quiet_def silent_def)

lemma sample_hr:
  "SUCCEEDED (hr (run_compilation sample_backend sample_shader release_options plain))"
  "SUCCEEDED (hr (run_compilation sample_backend sample_shader release_options fancy))"
  "\<not> SUCCEEDED (hr (run_compilation sample_backend sample_shader release_options broken))"
  "SUCCEEDED (hr (run_compilation sample_backend sample_shader release_options quiet))"
  "\<not> SUCCEEDED (hr (run_compilation sample_backend sample_shader release_options silent))"
  by (simp_all add: run_compilation_def macros_def c_str_def SUCCEEDED_def
      sample_backend_def sample_compile_def plain_def fancy_def broken_def quiet_def silent_def)

lemma sample_errors:
  "errors (run_compilation sample_backend sample_shader release_options quiet) = None"
  "errors (run_compilation sample_backend sample_shader release_options silent) = None"
  by (simp_all add: run_compilation_def macros_def c_str_def
      sample_backend_def sample_compile_def quiet_def silent_def)

lemmas exec_simps = start_def threadCount_def step_def is_Fault_def c_str_def
  sample_release sample_null_errors sample_regex

lemmas run_simps = CompileShader_run_def wait_over_def joined_def MAXIMUM_WAIT_OBJECTS_def
  exec_simps

section \<open>Properties of a batch\<close>

subsection \<open>What holds of every run\<close>

text \<open>The runs spoken of start at most 64 threads, so that the wait of line 184 is in
  force, and are free of races. If a compilation that was made failed, or any permutation
  of the list is one whose compilation fails, the value returned is the empty sequence,
  whatever \<open>Output\<close> holds.\<close>

lemma failed_run_returns_empty:
  assumes "CompileShader_run K C Shader Options permutations schedule = Some ctx"
    and "threadCount C (length permutations) \<le> MAXIMUM_WAIT_OBJECTS"
    and "race_free K Shader Options schedule (start C permutations)"
    and "\<exists>p\<in>set (Compiled ctx). \<not> SUCCEEDED (hr (run_compilation K Shader Options p))"
  shows "CompileShader K C Shader Options permutations schedule = Some []"
proof -
  from assms(4) run_failure [OF assms(1,2)] have "IsFailed ctx" by blast
  with assms(1) show ?thesis
    by (simp add: CompileShader_def returned_def)
qed

lemma failing_permutation_returns_empty:
  assumes "CompileShader K C Shader Options permutations schedule = Some r"
    and "threadCount C (length permutations) \<le> MAXIMUM_WAIT_OBJECTS"
    and "race_free K Shader Options schedule (start C permutations)"
    and "\<exists>p\<in>set permutations. \<not> SUCCEEDED (hr (run_compilation K Shader Options p))"
  shows "r = []"
proof -
  from assms(1) obtain ctx where
    run: "CompileShader_run K C Shader Options permutations schedule = Some ctx"
    and r: "r = returned ctx"
    by (auto simp add: CompileShader_def)
  show ?thesis
  proof (cases "0 < C")
    case True
    from run_accounted(1,2) [OF run assms(2)] True
    have "mset (Compiled ctx) = mset permutations" by simp
    then have "set (Compiled ctx) = set permutations"
      by (rule mset_eq_setD)
    with assms(4) run_failure [OF run assms(2)] have "IsFailed ctx" by blast
    with r show ?thesis by (simp add: returned_def)
  next
    case False
    from run assms(2) obtain threads where
      e: "exec K Shader Options schedule (start C permutations) = Some (threads, ctx)"
      by (rule CompileShader_run_exec)
    from False have "fst (start C permutations) = []"
      by (simp add: start_def threadCount_def)
    from no_threads(1) [OF e this] have "Output ctx = []"
      by (simp add: start_def)
    with r show ?thesis by (simp add: returned_def)
  qed
qed

text \<open>With a reported concurrency of at least 1 and every compilation succeeding, a run
  returns as many results as there are permutations, each permutation's own result once,
  so the keys returned are the keys given, as multisets.\<close>

lemma succeeding_run_returns_all:
  assumes "CompileShader K C Shader Options permutations schedule = Some r"
    and "threadCount C (length permutations) \<le> MAXIMUM_WAIT_OBJECTS"
    and "race_free K Shader Options schedule (start C permutations)"
    and "0 < C"
    and "\<forall>p\<in>set permutations. SUCCEEDED (hr (run_compilation K Shader Options p))"
  shows "mset r = image_mset (\<lambda>p. fst (snd (projr (compile_permutation K Shader Options p))))
                    (mset permutations)"
    and "length r = length permutations"
    and "mset (map CompiledShader.Key r) = mset (map OptionPermutation.Key permutations)"
proof -
  from assms(1) obtain ctx where
    run: "CompileShader_run K C Shader Options permutations schedule = Some ctx"
    and r: "r = returned ctx"
    by (auto simp add: CompileShader_def)
  from run_accounted(1,2) [OF run assms(2)] assms(4)
  have m: "mset (Compiled ctx) = mset permutations" by simp
  then have s: "set (Compiled ctx) = set permutations"
    by (rule mset_eq_setD)
  have ok: "\<exists>result lines. compile_permutation K Shader Options p = Inr (True, result, lines)"
    if "p \<in> set permutations" for p
  proof -
    from run_accounted(5) [OF run assms(2)] that s
    obtain success result lines where
      c: "compile_permutation K Shader Options p = Inr (success, result, lines)"
      by (cases "compile_permutation K Shader Options p") auto
    with compile_permutation_result(1) [OF c] assms(5) that show ?thesis by simp
  qed
  then have "\<not> failure K Shader Options p" if "p \<in> set permutations" for p
    using that by (fastforce simp add: failure_def)
  with run_accounted(4) [OF run assms(2)] s have "\<not> IsFailed ctx"
    by (simp add: list_ex_iff)
  with r have "r = Output ctx" by (simp add: returned_def)
  with run_accounted(3) [OF run assms(2)] m
  have "mset r = (\<Sum>p\<in>#mset permutations. artifact K Shader Options p)" by simp
  also have "\<dots> = image_mset (\<lambda>p. fst (snd (projr (compile_permutation K Shader Options p))))
                     (mset permutations)"
    by (rule artifacts_of_successes) (use ok in simp)
  finally show r': "mset r = image_mset
      (\<lambda>p. fst (snd (projr (compile_permutation K Shader Options p)))) (mset permutations)" .
  then have "size (mset r) = size (mset permutations)" by simp
  then show "length r = length permutations" by simp
  have "image_mset CompiledShader.Key (mset r)
          = image_mset (\<lambda>p. CompiledShader.Key
              (fst (snd (projr (compile_permutation K Shader Options p))))) (mset permutations)"
    by (simp add: r' multiset.map_comp comp_def)
  also have "\<dots> = image_mset OptionPermutation.Key (mset permutations)"
  proof (rule image_mset_cong)
    fix p assume "p \<in># mset permutations"
    then have "p \<in> set permutations" by simp
    from ok [OF this] obtain result lines where
      c: "compile_permutation K Shader Options p = Inr (True, result, lines)"
      by blast
    with compile_permutation_result(2) [OF c]
    show "CompiledShader.Key (fst (snd (projr (compile_permutation K Shader Options p))))
            = OptionPermutation.Key p"
      by simp
  qed
  finally show "mset (map CompiledShader.Key r) = mset (map OptionPermutation.Key permutations)"
    by simp
qed

text \<open>The thread count is \<open>min C N\<close>, never more than \<open>N\<close>, and at least 1 when both \<open>C\<close> and
  \<open>N\<close> are; that many threads are started. With no permutations no thread is started, the
  only run is the empty schedule, and the empty sequence is returned.\<close>

lemma threadCount_bounds:
  "threadCount C N = min C N"
  "threadCount C N \<le> N"
  "0 < C \<Longrightarrow> 0 < N \<Longrightarrow> 0 < threadCount C N"
  "length (fst (start C permutations)) = threadCount C (length permutations)"
  by (simp_all add: threadCount_def start_def)

lemma no_permutations:
  "CompileShader K C Shader Options [] [] = Some []"
  "CompileShader_run K C Shader Options [] schedule = Some ctx \<Longrightarrow>
     schedule = [] \<and> \<not> IsFailed ctx \<and> Output ctx = [] \<and> Compiled ctx = []"
proof -
  show "CompileShader K C Shader Options [] [] = Some []"
    by (simp add: threadCount_def start_def CompileShader_def CompileShader_run_def
        wait_over_def joined_def returned_def)
  assume run: "CompileShader_run K C Shader Options [] schedule = Some ctx"
  have "threadCount C (length ([] :: OptionPermutation list)) \<le> MAXIMUM_WAIT_OBJECTS"
    by (simp add: threadCount_def)
  with run obtain threads where
    e: "exec K Shader Options schedule (start C []) = Some (threads, ctx)"
    by (rule CompileShader_run_exec)
  have "fst (start C []) = []"
    by (simp add: start_def threadCount_def)
  from no_threads [OF e this]
  show "schedule = [] \<and> \<not> IsFailed ctx \<and> Output ctx = [] \<and> Compiled ctx = []"
    by (simp add: start_def)
qed

text \<open>After any schedule every permutation is in exactly one place (the queue, a thread's
  hands, the compilations made), and a thread has returned only if the queue is empty.
  With a reported concurrency of at least 1, a run ends with the queue empty and the
  compilations made being the permutations given, each once. A thread at line 46 returns
  only from an empty queue and otherwise takes the front permutation, whatever \<open>IsFailed\<close>
  holds; after a failure it is back at line 46.\<close>

lemma queue_accounting:
  assumes "exec K Shader Options schedule (start C permutations) = Some (threads, ctx)"
    and "race_free K Shader Options schedule (start C permutations)"
  shows "mset (Input ctx) + (\<Sum>w\<in>#mset threads. taken w) + mset (Compiled ctx)
           = mset permutations"
    and "Return \<in> set threads \<Longrightarrow> Input ctx = []"
  using reachable_accounted(1) [OF assms(1)]
  by (simp_all add: queue_accounted_def)

lemma queue_drained:
  assumes "CompileShader_run K C Shader Options permutations schedule = Some ctx"
    and "threadCount C (length permutations) \<le> MAXIMUM_WAIT_OBJECTS"
    and "race_free K Shader Options schedule (start C permutations)"
    and "0 < C"
  shows "Input ctx = []" and "mset (Compiled ctx) = mset permutations"
  using run_accounted(1,2) [OF assms(1,2)] assms(4) by simp_all

lemma worker_goes_on:
  "worker_step K Shader Options GetWorkItem ctx = Some (Return, ctx') \<Longrightarrow> Input ctx = []"
  "Input ctx = p # rest \<Longrightarrow>
     worker_step K Shader Options GetWorkItem ctx =
       Some (RunCompilation p, ctx\<lparr>Input := rest\<rparr>)"
  "worker_step K Shader Options (GetLine False result []) ctx =
     Some (GetWorkItem, ctx\<lparr>IsFailed := True\<rparr>)"
  by (cases "Input ctx"; simp)+

text \<open>A run on one thread, with a permutation that fails with messages between two that
  compile: the empty sequence is returned while \<open>Output\<close> holds two results.\<close>

lemma sample_run:
  "CompileShader_run sample_backend 1 sample_shader release_options [plain, broken, fancy]
      [0, 0, 0, 0, 0, 0, 0, 0, 0, 0, 0, 0, 0, 0, 0, 0, 0, 0, 0, 0] =
     Some \<lparr>Input = [], IsFailed = True,
           Output = [\<lparr>CompiledShader.Key = ''0'', Data = ''DXBC'', PdbName = [], PdbData = []\<rparr>,
                     \<lparr>CompiledShader.Key = ''1'', Data = ''DXBCFANCY'', PdbName = [],
                      PdbData = []\<rparr>],
           Messages = {''error X3000'', ''warning X3206''},
           Compiled = [plain, broken, fancy],
           Printed = [''warning X3206'', ''error X3000'']\<rparr>"
  "CompileShader sample_backend 1 sample_shader release_options [plain, broken, fancy]
      [0, 0, 0, 0, 0, 0, 0, 0, 0, 0, 0, 0, 0, 0, 0, 0, 0, 0, 0, 0] = Some []"
  by (simp_all add: CompileShader_def returned_def run_simps)

text \<open>Above 64 threads the wait of line 184 fails at once: \<open>CompileShader\<close> may read the
  context before any thread has moved and return the empty sequence with nothing
  compiled.\<close>

lemma wait_fails_above_64:
  "CompileShader_run sample_backend 65 sample_shader release_options (replicate 65 plain) [] =
     Some \<lparr>Input = replicate 65 plain, IsFailed = False, Output = [], Messages = {},
           Compiled = [], Printed = []\<rparr>"
  "CompileShader sample_backend 65 sample_shader release_options (replicate 65 plain) [] =
     Some []"
  by (simp_all add: CompileShader_def returned_def CompileShader_run_def start_def
      threadCount_def wait_over_def MAXIMUM_WAIT_OBJECTS_def list_ex_iff is_Fault_def)

subsection \<open>Where the code departs from the claims\<close>

text \<open>Claim C1 says that \<open>CompileShader\<close> returns an empty sequence whenever a backend call
  fails. A backend call can fail and leave the errors blob null (\<open>D3DCompileFromFile\<close> does
  so when it cannot open the source file). For the permutations \<open>plain\<close>, which compiles,
  and \<open>silent\<close>, whose call fails that way, on one thread: the call for \<open>silent\<close> fails, its
  errors blob is null, after nine steps the thread has made the null-pointer access of
  line 139 with \<open>IsFailed\<close> still false and the result of \<open>plain\<close> in \<open>Output\<close>, and under no
  schedule does \<open>CompileShader\<close> return.\<close>

theorem failure_without_messages:
  "\<not> SUCCEEDED (hr (run_compilation sample_backend sample_shader release_options silent)) \<and>
   errors (run_compilation sample_backend sample_shader release_options silent) = None \<and>
   exec sample_backend sample_shader release_options [0, 0, 0, 0, 0, 0, 0, 0, 0]
       (start 1 [plain, silent]) =
     Some ([Fault NullPointerAccess],
           \<lparr>Input = [], IsFailed = False,
            Output = [\<lparr>CompiledShader.Key = ''0'', Data = ''DXBC'', PdbName = [],
                       PdbData = []\<rparr>],
            Messages = {''warning X3206''},
            Compiled = [plain, silent], Printed = [''warning X3206'']\<rparr>) \<and>
   (\<forall>schedule. CompileShader sample_backend 1 sample_shader release_options [plain, silent]
      schedule = None)"
proof -
  have "exec sample_backend sample_shader release_options [0, 0, 0, 0, 0, 0, 0, 0, 0]
       (start 1 [plain, silent]) =
     Some ([Fault NullPointerAccess],
           \<lparr>Input = [], IsFailed = False,
            Output = [\<lparr>CompiledShader.Key = ''0'', Data = ''DXBC'', PdbName = [],
                       PdbData = []\<rparr>],
            Messages = {''warning X3206''},
            Compiled = [plain, silent], Printed = [''warning X3206'']\<rparr>)"
    by (simp add: exec_simps)
  moreover have "CompileShader sample_backend 1 sample_shader release_options [plain, silent]
      schedule = None" for schedule
    by (rule faulting_permutation_no_return [where p = silent])
      (simp_all add: threadCount_def MAXIMUM_WAIT_OBJECTS_def sample_null_errors)
  ultimately show ?thesis
    by (simp add: sample_hr sample_errors)
qed

text \<open>Claim C2 says that a non-empty list whose backend calls all succeed gives one result
  per permutation. A call that succeeds with nothing to report leaves the errors blob
  null. For the single permutation \<open>quiet\<close>, whose call succeeds that way, on one thread:
  after two steps the thread has made the null-pointer access of line 139 with \<open>Output\<close>
  empty, and under no schedule does \<open>CompileShader\<close> return. And with a reported
  concurrency of 0, \<open>CompileShader\<close> returns the empty sequence for the single permutation
  \<open>plain\<close>, whose call succeeds with messages.\<close>

theorem success_without_messages:
  "[quiet] \<noteq> [] \<and>
   SUCCEEDED (hr (run_compilation sample_backend sample_shader release_options quiet)) \<and>
   errors (run_compilation sample_backend sample_shader release_options quiet) = None \<and>
   exec sample_backend sample_shader release_options [0, 0] (start 1 [quiet]) =
     Some ([Fault NullPointerAccess],
           \<lparr>Input = [], IsFailed = False, Output = [], Messages = {},
            Compiled = [quiet], Printed = []\<rparr>) \<and>
   (\<forall>schedule. CompileShader sample_backend 1 sample_shader release_options [quiet]
      schedule = None) \<and>
   SUCCEEDED (hr (run_compilation sample_backend sample_shader release_options plain)) \<and>
   CompileShader sample_backend 0 sample_shader release_options [plain] [] = Some []"
proof -
  have "exec sample_backend sample_shader release_options [0, 0] (start 1 [quiet]) =
     Some ([Fault NullPointerAccess],
           \<lparr>Input = [], IsFailed = False, Output = [], Messages = {},
            Compiled = [quiet], Printed = []\<rparr>)"
    by (simp add: exec_simps)
  moreover have "CompileShader sample_backend 1 sample_shader release_options [quiet]
      schedule = None" for schedule
    by (rule faulting_permutation_no_return [where p = quiet])
      (simp_all add: threadCount_def MAXIMUM_WAIT_OBJECTS_def sample_null_errors)
  moreover have
    "CompileShader sample_backend 0 sample_shader release_options [plain] [] = Some []"
    by (simp add: CompileShader_def returned_def run_simps)
  ultimately show ?thesis
    by (simp add: sample_hr sample_errors)
qed

text \<open>Claim C4 says that at least one worker is spawned whenever there is a permutation.
  \<open>thread::hardware_concurrency\<close> returns 0 when the number of hardware threads is not
  computable, and line 177 takes the minimum with no lower bound. With that value and one
  permutation: the thread count is 0, no thread is started, the only run is the empty
  schedule, it compiles nothing and leaves the permutation in the queue, and
  \<open>CompileShader\<close> returns the empty sequence as from a batch that succeeded.\<close>

theorem no_worker_spawned:
  "0 < length [plain] \<and>
   threadCount 0 (length [plain]) = 0 \<and>
   fst (start 0 [plain]) = [] \<and>
   (\<forall>t schedule. CompileShader_run sample_backend 0 sample_shader release_options [plain]
      (t # schedule) = None) \<and>
   map_option Compiled
     (CompileShader_run sample_backend 0 sample_shader release_options [plain] []) = Some [] \<and>
   map_option IsFailed
     (CompileShader_run sample_backend 0 sample_shader release_options [plain] [])
     = Some False \<and>
   CompileShader sample_backend 0 sample_shader release_options [plain] [] = Some []"
  by (simp add: CompileShader_def returned_def run_simps)

text \<open>Claim C8 says that every queued permutation is dequeued and attempted, and that a
  worker terminates only when the queue is empty. For the permutations \<open>quiet\<close>, whose call
  succeeds and leaves the errors blob null, and \<open>plain\<close>, on one thread: after two steps
  the only thread has ended in the null-pointer access of line 139 while \<open>plain\<close> is still
  in the queue, no step follows, so \<open>plain\<close> is never dequeued, and under no schedule does
  the batch come to its end. And with a reported concurrency of 0 the batch ends with
  \<open>plain\<close> in the queue and nothing attempted.\<close>

theorem queue_not_drained:
  "exec sample_backend sample_shader release_options [0, 0] (start 1 [quiet, plain]) =
     Some ([Fault NullPointerAccess],
           \<lparr>Input = [plain], IsFailed = False, Output = [], Messages = {},
            Compiled = [quiet], Printed = []\<rparr>) \<and>
   (\<forall>t schedule. exec sample_backend sample_shader release_options (0 # 0 # t # schedule)
      (start 1 [quiet, plain]) = None) \<and>
   (\<forall>schedule. CompileShader_run sample_backend 1 sample_shader release_options
      [quiet, plain] schedule = None) \<and>
   CompileShader_run sample_backend 0 sample_shader release_options [plain] [] =
     Some \<lparr>Input = [plain], IsFailed = False, Output = [], Messages = {},
           Compiled = [], Printed = []\<rparr>"
proof -
  have "exec sample_backend sample_shader release_options [0, 0] (start 1 [quiet, plain]) =
     Some ([Fault NullPointerAccess],
           \<lparr>Input = [plain], IsFailed = False, Output = [], Messages = {},
            Compiled = [quiet], Printed = []\<rparr>)"
    by (simp add: exec_simps)
  moreover have "exec sample_backend sample_shader release_options (0 # 0 # t # schedule)
      (start 1 [quiet, plain]) = None" for t schedule
    by (simp add: exec_simps)
  moreover have "CompileShader_run sample_backend 1 sample_shader release_options
      [quiet, plain] schedule = None" for schedule
    by (rule faulting_permutation_no_run [where p = quiet])
      (simp_all add: threadCount_def MAXIMUM_WAIT_OBJECTS_def sample_null_errors)
  moreover have
    "CompileShader_run sample_backend 0 sample_shader release_options [plain] [] =
     Some \<lparr>Input = [plain], IsFailed = False, Output = [], Messages = {},
           Compiled = [], Printed = []\<rparr>"
    by (simp add: run_simps)
  ultimately show ?thesis
    by simp
qed

text \<open>Claim C7 at two permutations that draw the same warning, on two threads that both look
  the line up before either inserts it: both insertions report success and the line is
  printed twice.\<close>

theorem duplicate_emission:
  "map_option Printed
     (CompileShader_run sample_backend 2 sample_shader release_options [plain, fancy]
        [0, 1, 0, 1, 0, 1, 0, 1, 0, 1, 0, 1, 0, 1, 0, 1]) =
     Some [''warning X3206'', ''warning X3206'']"
  by (simp add: run_simps)

section \<open>What the message set does guarantee\<close>

lemma reported_append:
  "reported K Shader Options (ps @ [p])
     = reported K Shader Options ps
       \<union> {m \<in> set (lines_of K Shader Options p). \<not> warningIgnoreRegex m}"
  by (auto simp add: reported_def)

lemma reported_not_ignored:
  "m \<in> reported K Shader Options ps \<Longrightarrow> \<not> warningIgnoreRegex m"
  by (auto simp add: reported_def)

lemma reported_finite:
  "finite (reported K Shader Options ps)"
  by (simp add: reported_def)

lemma reported_cong:
  assumes "set ps = set qs"
  shows "reported K Shader Options ps = reported K Shader Options qs"
  using assms by (simp add: reported_def)

lemma worker_step_messages_complete:
  assumes "worker_step K Shader Options w ctx = Some (w', ctx')"
    and "messages_complete K Shader Options (add_mset w R) ctx"
  shows "messages_complete K Shader Options (add_mset w' R) ctx'"
  using assms
proof (cases rule: worker_step_cases)
  case (skip success result m lines)
  with assms(2) show ?thesis
    by (auto simp add: messages_complete_def dest: reported_not_ignored)
qed (auto simp add: messages_complete_def reported_append lines_of_def)

lemma worker_step_messages_sound:
  assumes "worker_step K Shader Options w ctx = Some (w', ctx')"
    and "messages_sound K Shader Options (add_mset w R) ctx"
  shows "messages_sound K Shader Options (add_mset w' R) ctx'"
  using assms
  by (cases rule: worker_step_cases)
    (auto simp add: messages_sound_def reported_append lines_of_def)

lemma not_in_emplace:
  assumes "\<not> in_emplace u"
  shows "emplacing u = {}" and "found_before u = {}"
  using assms by (cases u; simp add: in_emplace_def)+

lemma worker_step_emitted_once:
  assumes "worker_step K Shader Options w ctx = Some (w', ctx')"
    and "\<not> (calls_emplace w \<and> (\<exists>u\<in>#R. in_emplace u))"
    and "emitted_once (add_mset w R) ctx"
  shows "emitted_once (add_mset w' R) ctx'"
  using assms(1)
proof (cases rule: worker_step_cases)
  case (insert success result m lines)
  with assms(2) have "\<not> in_emplace u" if "u \<in># R" for u
    using that by (auto simp add: calls_emplace_def)
  then have r: "emplacing u = {}" "found_before u = {}" if "u \<in># R" for u
    using that not_in_emplace by blast+
  from assms(3) insert have m: "m \<notin> Messages ctx" and f: "finite (Messages ctx)"
    by (auto simp add: emitted_once_def)
  from assms(3) insert have
    "mset (Printed ctx) + image_mset c_str (\<Sum>w\<in>#R. printing w)
       = image_mset c_str (mset_set (Messages ctx))"
    by (simp add: emitted_once_def)
  with insert m f r show ?thesis
    by (simp add: emitted_once_def)
next
  case (print success result m lines)
  with assms(3) show ?thesis
    by (auto simp add: emitted_once_def)
qed (use assms(3) in \<open>auto simp add: emitted_once_def\<close>)

lemma nothing_printing:
  assumes "\<forall>w\<in>#M. printing w = {#}"
  shows "(\<Sum>w\<in>#M. printing w) = {#}"
  using assms by (induction M) simp_all

lemma start_messages:
  "messages_complete K Shader Options (mset (fst (start C permutations)))
     (snd (start C permutations))"
  "messages_sound K Shader Options (mset (fst (start C permutations)))
     (snd (start C permutations))"
  "emitted_once (mset (fst (start C permutations))) (snd (start C permutations))"
proof -
  have w: "w = GetWorkItem" if "w \<in> set (fst (start C permutations))" for w
    using that by (simp add: start_def)
  then show
    "messages_complete K Shader Options (mset (fst (start C permutations)))
       (snd (start C permutations))"
    "messages_sound K Shader Options (mset (fst (start C permutations)))
       (snd (start C permutations))"
    by (auto simp add: messages_complete_def messages_sound_def reported_def start_def)
  have "(\<Sum>w\<in>#mset (fst (start C permutations)). printing w) = {#}"
  proof (rule nothing_printing, rule ballI)
    fix x assume "x \<in># mset (fst (start C permutations))"
    then have "x = GetWorkItem" using w by simp
    then show "printing x = {#}" by simp
  qed
  moreover have "Messages (snd (start C permutations)) = {}"
    "Printed (snd (start C permutations)) = []"
    by (simp_all add: start_def)
  moreover have "found_before x = {}" "emplacing x = {}"
    if "x \<in> set (fst (start C permutations))" for x
    using w [OF that] by simp_all
  ultimately show
    "emitted_once (mset (fst (start C permutations))) (snd (start C permutations))"
    by (simp add: emitted_once_def)
qed

lemma reachable_messages:
  assumes "exec K Shader Options schedule (start C permutations) = Some c"
  shows "messages_complete K Shader Options (mset (fst c)) (snd c)"
    and "messages_sound K Shader Options (mset (fst c)) (snd c)"
proof -
  show "messages_complete K Shader Options (mset (fst c)) (snd c)"
    by (rule exec_invariant [OF assms, where I = "messages_complete K Shader Options"])
      (simp_all add: start_messages worker_step_messages_complete)
  show "messages_sound K Shader Options (mset (fst c)) (snd c)"
    by (rule exec_invariant [OF assms, where I = "messages_sound K Shader Options"])
      (simp_all add: start_messages worker_step_messages_sound)
qed

lemma reachable_emitted_once:
  assumes "exec K Shader Options schedule (start C permutations) = Some c"
    and "race_free K Shader Options schedule (start C permutations)"
  shows "emitted_once (mset (fst c)) (snd c)"
  by (rule exec_invariant_race_free [OF assms, where I = emitted_once])
    (simp_all add: start_messages worker_step_emitted_once)

lemma joined_messages:
  assumes "joined threads"
  shows "(\<Union>w\<in>set threads. unread w \<union> emplacing w) = {}"
    and "(\<Sum>w\<in>#mset threads. printing w) = {#}"
  using assms
  by (induction threads) (simp_all add: joined_def)

text \<open>In every run with at least one and at most 64 threads, \<open>Messages\<close> ends as the set of
  the lines to report: the lines of the messages of all permutations that
  \<open>warningIgnoreRegex\<close> does not match.\<close>

lemma run_messages:
  assumes "CompileShader_run K C Shader Options permutations schedule = Some ctx"
    and "threadCount C (length permutations) \<le> MAXIMUM_WAIT_OBJECTS"
    and "0 < C"
  shows "Messages ctx = reported K Shader Options permutations"
proof -
  from assms(1,2) obtain threads where
    e: "exec K Shader Options schedule (start C permutations) = Some (threads, ctx)"
    and j: "joined threads"
    by (rule CompileShader_run_exec)
  note m = reachable_messages [OF e] and u = joined_messages [OF j]
  from run_accounted(1,2) [OF assms(1,2)] assms(3)
  have "mset (Compiled ctx) = mset permutations" by simp
  then have "set (Compiled ctx) = set permutations" by (rule mset_eq_setD)
  then have c: "reported K Shader Options (Compiled ctx) = reported K Shader Options permutations"
    by (rule reported_cong)
  from m(1) u(1) have "reported K Shader Options (Compiled ctx) \<subseteq> Messages ctx"
    by (simp add: messages_complete_def)
  moreover from m(2) have "Messages ctx \<subseteq> reported K Shader Options (Compiled ctx)"
    by (simp add: messages_sound_def)
  ultimately show ?thesis
    using c by simp
qed

text \<open>In every such run that is free of races, what is printed is the lines to report, each
  once, as \<open>printf\<close> prints it: no line that \<open>warningIgnoreRegex\<close> matches, and a line that
  several permutations draw a single time.\<close>

lemma diagnostics_once_without_race:
  assumes "CompileShader_run K C Shader Options permutations schedule = Some ctx"
    and "threadCount C (length permutations) \<le> MAXIMUM_WAIT_OBJECTS"
    and "0 < C"
    and "race_free K Shader Options schedule (start C permutations)"
  shows "mset (Printed ctx)
           = image_mset c_str (mset_set (reported K Shader Options permutations))"
proof -
  from assms(1,2) obtain threads where
    e: "exec K Shader Options schedule (start C permutations) = Some (threads, ctx)"
    and j: "joined threads"
    by (rule CompileShader_run_exec)
  from reachable_emitted_once [OF e assms(4)] joined_messages(2) [OF j]
  have "mset (Printed ctx) = image_mset c_str (mset_set (Messages ctx))"
    by (simp add: emitted_once_def)
  with run_messages [OF assms(1,2,3)] show ?thesis
    by simp
qed

text \<open>One thread, two permutations that draw the same warning: the schedule is free of
  races and the warning is printed once.\<close>

lemma diagnostics_once_sample:
  "race_free sample_backend sample_shader release_options
     [0, 0, 0, 0, 0, 0, 0, 0, 0, 0, 0, 0, 0, 0] (start 1 [plain, fancy])"
  "map_option Printed
     (CompileShader_run sample_backend 1 sample_shader release_options [plain, fancy]
        [0, 0, 0, 0, 0, 0, 0, 0, 0, 0, 0, 0, 0, 0]) = Some [''warning X3206'']"
  "\<not> race_free sample_backend sample_shader release_options
     [0, 1, 0, 1, 0, 1, 0, 1, 0, 1, 0, 1, 0, 1, 0, 1] (start 2 [plain, fancy])"
   apply (rule race_free_single)
   apply (simp add: start_def threadCount_def)
   apply (simp add: run_simps)
  apply (simp add: exec_simps racing_def calls_emplace_def in_emplace_def)
  done

end
